theory Spec2Isabelle
  imports Complex_Main "HOL-Library.Log_Nat"
begin

section \<open>Strings of the application\<close>

text \<open>
  The screens are TypeScript; their strings are modelled as \<^typ>\<open>string\<close>, one
  \<^typ>\<open>char\<close> per code unit, for code units below 256 (ASCII and Latin-1).
\<close>

text \<open>The class \<^verbatim>\<open>\d\<close> of a regular expression without the unicode flag: \<^verbatim>\<open>0\<close> to \<^verbatim>\<open>9\<close>.\<close>

definition is_digit :: "char \<Rightarrow> bool" where
  "is_digit c = (c \<in> set ''0123456789'')"

text \<open>
  \<^verbatim>\<open>s.slice(a, b)\<close> and \<^verbatim>\<open>s.slice(a)\<close> for the non-negative constant indices
  that the source uses; an end beyond the length stops at the length, as in JavaScript.
\<close>

definition slice :: "string \<Rightarrow> nat \<Rightarrow> nat \<Rightarrow> string" where
  "slice s a b = take (b - a) (drop a s)"

definition slice_from :: "string \<Rightarrow> nat \<Rightarrow> string" where
  "slice_from s a = drop a s"

text \<open>
  \<^verbatim>\<open>s.toLowerCase()\<close> on code units below 256: the letters \<^verbatim>\<open>A\<close> to \<^verbatim>\<open>Z\<close>
  (65 to 90) and the Latin-1 capitals (192 to 222 without the multiplication sign 215)
  move up by 32, every other code unit stays.
\<close>

definition toLowerCase_char :: "char \<Rightarrow> char" where
  "toLowerCase_char c =
     (let n = (of_char c :: nat)
      in if (65 \<le> n \<and> n \<le> 90) \<or> (192 \<le> n \<and> n \<le> 222 \<and> n \<noteq> 215)
         then char_of (n + 32) else c)"

definition toLowerCase :: "string \<Rightarrow> string" where
  "toLowerCase s = map toLowerCase_char s"

text \<open>
  JavaScript truthiness of a value of type \<^verbatim>\<open>string | null\<close>, as the guards
  \<^verbatim>\<open>if (x)\<close>, \<^verbatim>\<open>x ? a : b\<close> and \<^verbatim>\<open>x && y\<close> test it: \<^verbatim>\<open>null\<close> and the
  empty string are falsy.
\<close>

definition truthy :: "string option \<Rightarrow> bool" where
  "truthy v = (case v of None \<Rightarrow> False | Some s \<Rightarrow> s \<noteq> [])"

section \<open>JavaScript numbers\<close>

text \<open>
  A JavaScript number is an IEEE 754 double. A finite double is given by the rational
  number it stands for (\<open>Finite r\<close>, with -0 identified with 0); the other numbers are
  \<open>NaN\<close>, \<open>PosInf\<close> and \<open>NegInf\<close>. \<open>Null\<close> is the value \<^verbatim>\<open>null\<close>, which a numeric
  property holds after \<^verbatim>\<open>JSON.stringify\<close> wrote a number that is not finite.
\<close>

datatype jsnum = Finite rat | NaN | PosInf | NegInf | Null

text \<open>
  Rounding of a rational number to the nearest double, ties to the even significand:
  the binade \<open>e\<close> of \<open>r\<close> has \<open>2 ^ e \<le> \<bar>r\<bar> < 2 ^ (e + 1)\<close>, the spacing of the doubles
  there is \<open>2 ^ (e - 52)\<close>, from the binade -1022 downwards it stays \<open>2 ^ (-1074)\<close>, and
  a result of magnitude \<open>2 ^ 1024\<close> is an infinity.
\<close>

definition pow2 :: "int \<Rightarrow> rat" where
  "pow2 e = (if 0 \<le> e then 2 ^ nat e else 1 / 2 ^ nat (- e))"

definition binade :: "rat \<Rightarrow> int" where
  "binade r =
     (let (p, q) = quotient_of \<bar>r\<bar>; e0 = bitlen p - bitlen q
      in if pow2 e0 \<le> \<bar>r\<bar> then e0 else e0 - 1)"

definition round_half_even :: "rat \<Rightarrow> int" where
  "round_half_even x =
     (let f = \<lfloor>x\<rfloor>; d = x - of_int f
      in if d < 1 / 2 then f else if 1 / 2 < d then f + 1 else if even f then f else f + 1)"

definition js_round :: "rat \<Rightarrow> jsnum" where
  "js_round r =
     (if r = 0 then Finite 0
      else
       (let e = max (binade r) (- 1022);
            ulp = pow2 (e - 52);
            v = of_int (round_half_even (r / ulp)) * ulp
        in if pow2 1024 \<le> \<bar>v\<bar> then (if 0 < r then PosInf else NegInf) else Finite v))"

text \<open>\<^verbatim>\<open>ToNumber\<close>, which the arithmetic operators apply to their operands.\<close>

definition ToNumber :: "jsnum \<Rightarrow> jsnum" where
  "ToNumber x = (case x of Null \<Rightarrow> Finite 0 | _ \<Rightarrow> x)"

text \<open>The operators \<^verbatim>\<open>+\<close>, \<^verbatim>\<open>-\<close> and \<^verbatim>\<open>>\<close> on numbers and \<^verbatim>\<open>null\<close>.\<close>

definition js_add :: "jsnum \<Rightarrow> jsnum \<Rightarrow> jsnum" where
  "js_add x y =
     (case (ToNumber x, ToNumber y) of
        (Finite a, Finite b) \<Rightarrow> js_round (a + b)
      | (Finite a, PosInf) \<Rightarrow> PosInf
      | (Finite a, NegInf) \<Rightarrow> NegInf
      | (PosInf, Finite b) \<Rightarrow> PosInf
      | (PosInf, PosInf) \<Rightarrow> PosInf
      | (NegInf, Finite b) \<Rightarrow> NegInf
      | (NegInf, NegInf) \<Rightarrow> NegInf
      | _ \<Rightarrow> NaN)"

definition js_negate :: "jsnum \<Rightarrow> jsnum" where
  "js_negate x =
     (case ToNumber x of
        Finite a \<Rightarrow> Finite (- a) | PosInf \<Rightarrow> NegInf | NegInf \<Rightarrow> PosInf | _ \<Rightarrow> NaN)"

definition js_sub :: "jsnum \<Rightarrow> jsnum \<Rightarrow> jsnum" where
  "js_sub x y = js_add x (js_negate y)"

definition js_gt :: "jsnum \<Rightarrow> jsnum \<Rightarrow> bool" where
  "js_gt x y =
     (case (ToNumber x, ToNumber y) of
        (Finite a, Finite b) \<Rightarrow> b < a
      | (Finite a, NegInf) \<Rightarrow> True
      | (PosInf, Finite b) \<Rightarrow> True
      | (PosInf, NegInf) \<Rightarrow> True
      | _ \<Rightarrow> False)"

section \<open>EditProfile: formatPhoneNumber\<close>

text \<open>
  \<^verbatim>\<open>
  const formatPhoneNumber = (value: string): string => {
    const digits = value.replace(/\D/g, "").slice(0, 10);
    if (digits.length > 6)
      return `${digits.slice(0, 3)}-${digits.slice(3, 6)}-${digits.slice(6)}`;
    if (digits.length > 3) return `${digits.slice(0, 3)}-${digits.slice(3)}`;
    return digits;
  };
  \<close>
\<close>

definition formatPhoneNumber :: "string \<Rightarrow> string" where
  "formatPhoneNumber v =
     (let digits = slice (filter is_digit v) 0 10
      in if length digits > 6
         then slice digits 0 3 @ ''-'' @ slice digits 3 6 @ ''-'' @ slice_from digits 6
         else if length digits > 3
         then slice digits 0 3 @ ''-'' @ slice_from digits 3
         else digits)"

section \<open>Account, Orders, OrderDetails: getStatusStyle\<close>

text \<open>
  Each screen has a style sheet of its own (\<^verbatim>\<open>const styles = StyleSheet.create({ ... })\<close>)
  and its getStatusStyle returns one entry of that sheet. The entries that the three
  functions return hold a background colour and a text colour.
\<close>

record text_style =
  backgroundColor :: string
  color :: string

text \<open>
  The sheets of Orders and OrderDetails have the four entries \<^verbatim>\<open>completedStatus\<close>,
  \<^verbatim>\<open>inProgressStatus\<close>, \<^verbatim>\<open>readyForPickupStatus\<close> and \<^verbatim>\<open>cancelledStatus\<close>; the sheet of
  Account has these and \<^verbatim>\<open>pendingStatus\<close>.
\<close>

record status_styles =
  completedStatus :: text_style
  inProgressStatus :: text_style
  readyForPickupStatus :: text_style
  cancelledStatus :: text_style

record account_status_styles = status_styles +
  pendingStatus :: text_style

text \<open>
  Account:
  \<^verbatim>\<open>
  completedStatus: { backgroundColor: "#16a34a", color: "#fff" },
  inProgressStatus: { backgroundColor: "#2563eb", color: "#fff" },
  readyForPickupStatus: { backgroundColor: "#d97706", color: "#fff" },
  pendingStatus: { backgroundColor: "#F3F4F6", color: "#6B7280" },
  cancelledStatus: { backgroundColor: "#F3F4F6", color: "#dc2626" },
  \<close>
\<close>

definition styles_Account :: account_status_styles where
  "styles_Account =
     \<lparr>completedStatus = \<lparr>backgroundColor = ''#16a34a'', color = ''#fff''\<rparr>,
      inProgressStatus = \<lparr>backgroundColor = ''#2563eb'', color = ''#fff''\<rparr>,
      readyForPickupStatus = \<lparr>backgroundColor = ''#d97706'', color = ''#fff''\<rparr>,
      cancelledStatus = \<lparr>backgroundColor = ''#F3F4F6'', color = ''#dc2626''\<rparr>,
      pendingStatus = \<lparr>backgroundColor = ''#F3F4F6'', color = ''#6B7280''\<rparr>\<rparr>"

text \<open>
  Orders, and with the same four entries OrderDetails:
  \<^verbatim>\<open>
  completedStatus: { backgroundColor: "#16a34a", color: "#fff" },
  inProgressStatus: { backgroundColor: "#2563eb", color: "#fff" },
  readyForPickupStatus: { backgroundColor: "#d97706", color: "#fff" },
  cancelledStatus: { backgroundColor: "#F3F4F6", color: "#6B7280" },
  \<close>
\<close>

definition styles_Orders :: status_styles where
  "styles_Orders =
     \<lparr>completedStatus = \<lparr>backgroundColor = ''#16a34a'', color = ''#fff''\<rparr>,
      inProgressStatus = \<lparr>backgroundColor = ''#2563eb'', color = ''#fff''\<rparr>,
      readyForPickupStatus = \<lparr>backgroundColor = ''#d97706'', color = ''#fff''\<rparr>,
      cancelledStatus = \<lparr>backgroundColor = ''#F3F4F6'', color = ''#6B7280''\<rparr>\<rparr>"

definition styles_OrderDetails :: status_styles where
  "styles_OrderDetails =
     \<lparr>completedStatus = \<lparr>backgroundColor = ''#16a34a'', color = ''#fff''\<rparr>,
      inProgressStatus = \<lparr>backgroundColor = ''#2563eb'', color = ''#fff''\<rparr>,
      readyForPickupStatus = \<lparr>backgroundColor = ''#d97706'', color = ''#fff''\<rparr>,
      cancelledStatus = \<lparr>backgroundColor = ''#F3F4F6'', color = ''#6B7280''\<rparr>\<rparr>"

text \<open>
  Account:
  \<^verbatim>\<open>
  const getStatusStyle = (status: string) => {
    switch (status.toLowerCase()) {
      case "completed": return styles.completedStatus;
      case "processing": case "ready": case "awaitingpickup": case "in progress":
        return styles.inProgressStatus;
      case "ready for pickup": return styles.readyForPickupStatus;
      case "pending": return styles.pendingStatus;
      case "cancelled": return styles.cancelledStatus;
      default: return styles.pendingStatus;
    }
  };
  \<close>
\<close>

definition getStatusStyle_Account :: "string \<Rightarrow> text_style" where
  "getStatusStyle_Account status =
     (let s = toLowerCase status
      in if s = ''completed'' then completedStatus styles_Account
         else if s = ''processing'' \<or> s = ''ready'' \<or> s = ''awaitingpickup''
                 \<or> s = ''in progress'' then inProgressStatus styles_Account
         else if s = ''ready for pickup'' then readyForPickupStatus styles_Account
         else if s = ''pending'' then pendingStatus styles_Account
         else if s = ''cancelled'' then cancelledStatus styles_Account
         else pendingStatus styles_Account)"

text \<open>
  Orders:
  \<^verbatim>\<open>
  const getStatusStyle = (status: string) => {
    switch (status) {
      case "Completed": return styles.completedStatus;
      case "Processing": case "Ready": case "AwaitingPickup": case "In Progress":
        return styles.inProgressStatus;
      case "Ready for Pickup": return styles.readyForPickupStatus;
      case "Pending": return styles.cancelledStatus;
      default: return styles.cancelledStatus;
    }
  };
  \<close>
\<close>

definition getStatusStyle_Orders :: "string \<Rightarrow> text_style" where
  "getStatusStyle_Orders status =
     (if status = ''Completed'' then completedStatus styles_Orders
      else if status = ''Processing'' \<or> status = ''Ready'' \<or> status = ''AwaitingPickup''
              \<or> status = ''In Progress'' then inProgressStatus styles_Orders
      else if status = ''Ready for Pickup'' then readyForPickupStatus styles_Orders
      else if status = ''Pending'' then cancelledStatus styles_Orders
      else cancelledStatus styles_Orders)"

text \<open>OrderDetails: the same switch, written out again in that file, on its own sheet.\<close>

definition getStatusStyle_OrderDetails :: "string \<Rightarrow> text_style" where
  "getStatusStyle_OrderDetails status =
     (if status = ''Completed'' then completedStatus styles_OrderDetails
      else if status = ''Processing'' \<or> status = ''Ready'' \<or> status = ''AwaitingPickup''
              \<or> status = ''In Progress'' then inProgressStatus styles_OrderDetails
      else if status = ''Ready for Pickup'' then readyForPickupStatus styles_OrderDetails
      else if status = ''Pending'' then cancelledStatus styles_OrderDetails
      else cancelledStatus styles_OrderDetails)"

section \<open>Local storage, remote calls and the effects of a handler\<close>

text \<open>
  AsyncStorage is a key-value store of strings; \<^verbatim>\<open>getItem\<close> of a missing key is
  \<^verbatim>\<open>null\<close>.
\<close>

type_synonym storage = "string \<rightharpoonup> string"

text \<open>
  A query of the hosted backend answers \<^verbatim>\<open>{ data, error }\<close>: \<open>Failed\<close> when
  \<^verbatim>\<open>error\<close> is set, \<open>Data d\<close> otherwise. The answers are inputs of the handlers.
\<close>

datatype 'a response = Failed | Data 'a

text \<open>PickUpTime: \<^verbatim>\<open>type Slot = { time: string; capacity: number | null }\<close>.\<close>

record slot =
  time :: string
  capacity :: "int option"

text \<open>
  The row that placeOrder inserts into \<^verbatim>\<open>orders\<close>, and the rows it inserts into
  \<^verbatim>\<open>order_items\<close>. The amounts (\<^verbatim>\<open>total_amount\<close>, \<^verbatim>\<open>service_fee\<close>, \<^verbatim>\<open>tax\<close>,
  \<^verbatim>\<open>unit_price\<close>) are prices and sums of prices rounded by \<^verbatim>\<open>toFixed\<close> and are left
  out of the rows.
\<close>

record order_row =
  user_id :: string
  location_id :: "string option"
  status :: string
  barcode :: string
  payment_id :: string
  created_at :: string
  pickup_time :: string

record order_item_row =
  order_id :: string
  product_id :: string
  ordered_quantity :: jsnum

text \<open>
  The calls to the backend that the modelled handlers issue, and the deletion of an
  order row, which none of them issues.
\<close>

datatype remote_call =
    Auth_getUser
  | Orders_insert order_row
  | Orders_select_by_barcode string
  | Orders_update_status string string
  | Orders_delete string
  | Products_select_in "string list"
  | Order_items_insert "order_item_row list"
  | Schedule_select "string option" nat
  | Schedule_update "string option" nat "slot list"

datatype toast_type = Success | Error | Info

text \<open>
  What a handler does besides changing the state of its component, in the order in which
  it does it: writes to AsyncStorage, calls to the backend, \<^verbatim>\<open>Toast.show\<close> (type and
  \<^verbatim>\<open>text1\<close>), \<^verbatim>\<open>Alert.alert\<close> (title and message), navigation, and an exception
  that leaves the handler uncaught. Console output is not modelled.
\<close>

datatype effect =
    Set_item string string
  | Remove_item string
  | Remote remote_call
  | Toast_show toast_type string
  | Alert_alert string string
  | Navigate string
  | Go_back
  | Uncaught string

fun apply_effect :: "storage \<Rightarrow> effect \<Rightarrow> storage" where
  "apply_effect st (Set_item k v) = st(k \<mapsto> v)"
| "apply_effect st (Remove_item k) = st(k := None)"
| "apply_effect st _ = st"

definition storage_after :: "storage \<Rightarrow> effect list \<Rightarrow> storage" where
  "storage_after st es = foldl apply_effect st es"

fun written_key :: "effect \<Rightarrow> string list" where
  "written_key (Set_item k v) = [k]"
| "written_key (Remove_item k) = [k]"
| "written_key _ = []"

definition keys_written :: "effect list \<Rightarrow> string set" where
  "keys_written es = set (concat (map written_key es))"

fun remote_of :: "effect \<Rightarrow> remote_call list" where
  "remote_of (Remote c) = [c]"
| "remote_of _ = []"

definition remote_calls :: "effect list \<Rightarrow> remote_call list" where
  "remote_calls es = concat (map remote_of es)"

fun is_remote_write :: "remote_call \<Rightarrow> bool" where
  "is_remote_write (Orders_insert r) = True"
| "is_remote_write (Orders_update_status i s) = True"
| "is_remote_write (Orders_delete i) = True"
| "is_remote_write (Order_items_insert rs) = True"
| "is_remote_write (Schedule_update l d hs) = True"
| "is_remote_write _ = False"

fun is_error_notice :: "effect \<Rightarrow> bool" where
  "is_error_notice (Toast_show Error t) = True"
| "is_error_notice (Alert_alert title m) = (title = ''Error'')"
| "is_error_notice _ = False"

section \<open>The cart in local storage\<close>

text \<open>
  A product row has an \<^verbatim>\<open>id\<close>, a \<^verbatim>\<open>name\<close> and other columns; a line item of the cart
  is such a row with a \<^verbatim>\<open>quantity\<close> (\<^verbatim>\<open>{ ...product, quantity }\<close>), which is a
  JavaScript number.
\<close>

record 'f product =
  prod_id :: string
  prod_name :: string
  prod_other :: 'f

record 'f cart_item =
  item_id :: string
  item_name :: string
  quantity :: jsnum
  item_other :: 'f

text \<open>
  \<^verbatim>\<open>JSON.stringify\<close> and \<^verbatim>\<open>JSON.parse\<close> belong to the JavaScript runtime, not to the
  application; the handlers take them as parameters. A parser answers \<open>None\<close> where
  \<^verbatim>\<open>JSON.parse\<close> throws or yields a value that is no array of line items (on which
  \<^verbatim>\<open>findIndex\<close> or \<^verbatim>\<open>length\<close> throws); \<open>JSON_parse_falsy\<close> tells whether it yields
  one of the falsy values \<^verbatim>\<open>null\<close>, \<^verbatim>\<open>false\<close>, \<^verbatim>\<open>0\<close> and \<^verbatim>\<open>""\<close>. The application
  stores only arrays of line items under the key \<^verbatim>\<open>cart\<close> and only objects
  \<^verbatim>\<open>{ id, name }\<close> under \<^verbatim>\<open>selectedLocation\<close>; a stored location parses to its
  \<^verbatim>\<open>id\<close> (\<open>Some None\<close> when the parsed value has none).
\<close>

record 'f json =
  JSON_parse_cart :: "string \<Rightarrow> 'f cart_item list option"
  JSON_parse_falsy :: "string \<Rightarrow> bool"
  JSON_stringify_cart :: "'f cart_item list \<Rightarrow> string"
  JSON_parse_location :: "string \<Rightarrow> string option option"
  JSON_stringify_location :: "string \<Rightarrow> string \<Rightarrow> string"

text \<open>
  \<^verbatim>\<open>stored ? JSON.parse(stored) : []\<close>, the expression with which the screens read
  the cart (CategoryScreen writes \<^verbatim>\<open>JSON.parse(stored || "[]")\<close>, which is the same
  value): a missing or empty value is the empty cart.
\<close>

definition stored_cart :: "'f json \<Rightarrow> string option \<Rightarrow> 'f cart_item list option" where
  "stored_cart J stored = (if truthy stored then JSON_parse_cart J (the stored) else Some [])"

text \<open>
  \<^verbatim>\<open>const sel = await AsyncStorage.getItem("selectedLocation");
  const currentLocObj = sel ? JSON.parse(sel) : null;
  const currentLocId = currentLocObj?.id ?? null;\<close>
\<close>

definition currentLocId :: "'f json \<Rightarrow> storage \<Rightarrow> string option option" where
  "currentLocId J st =
     (let sel = st ''selectedLocation''
      in if truthy sel then JSON_parse_location J (the sel) else Some None)"

text \<open>\<^verbatim>\<open>xs.findIndex(p)\<close>: the first index whose element satisfies \<open>p\<close>; \<open>None\<close> for -1.\<close>

fun findIndex :: "('a \<Rightarrow> bool) \<Rightarrow> 'a list \<Rightarrow> nat option" where
  "findIndex p [] = None"
| "findIndex p (x # xs) = (if p x then Some 0 else map_option Suc (findIndex p xs))"

text \<open>\<^verbatim>\<open>cart[idx].quantity += n\<close>, for an index that findIndex returned.\<close>

definition add_quantity :: "'f cart_item list \<Rightarrow> nat \<Rightarrow> jsnum \<Rightarrow> 'f cart_item list" where
  "add_quantity cart idx n =
     cart[idx := (cart ! idx)\<lparr>quantity := js_add (quantity (cart ! idx)) n\<rparr>]"

text \<open>\<^verbatim>\<open>{ ...product, quantity }\<close>\<close>

definition spread_product :: "'f product \<Rightarrow> jsnum \<Rightarrow> 'f cart_item" where
  "spread_product product qty =
     \<lparr>item_id = prod_id product, item_name = prod_name product, quantity = qty,
      item_other = prod_other product\<rparr>"

subsection \<open>ProductDetails: handleAddToCart\<close>

text \<open>
  \<^verbatim>\<open>
  const handleAddToCart = async () => {
    try {
      const stored = await AsyncStorage.getItem('cart');
      const cart: any[] = stored ? JSON.parse(stored) : [];
      const idx = cart.findIndex(it => it.id === product.id);
      if (idx >= 0) cart[idx].quantity += quantity;
      else cart.push({ ...product, quantity });
      await AsyncStorage.setItem('cart', JSON.stringify(cart));
      Toast.show({ type: 'success', text1: `${product.name} added to cart!`, ... });
    } catch (err) {
      Toast.show({ type: 'error', text1: 'Failed to add to cart' });
    }
  };
  \<close>
\<close>

definition handleAddToCart_ProductDetails ::
  "'f json \<Rightarrow> 'f product \<Rightarrow> jsnum \<Rightarrow> storage \<Rightarrow> effect list" where
  "handleAddToCart_ProductDetails J product qty st =
     (case stored_cart J (st ''cart'') of
        None \<Rightarrow> [Toast_show Error ''Failed to add to cart'']
      | Some cart \<Rightarrow>
          (let cart' = (case findIndex (\<lambda>it. item_id it = prod_id product) cart of
                          Some idx \<Rightarrow> add_quantity cart idx qty
                        | None \<Rightarrow> cart @ [spread_product product qty])
           in [Set_item ''cart'' (JSON_stringify_cart J cart'),
               Toast_show Success (prod_name product @ '' added to cart!'')]))"

subsection \<open>ProductCard: handleAddToCart\<close>

text \<open>
  \<^verbatim>\<open>
  const ProductCard: React.FC<ProductCardProps> = ({ product, onAddToCart }) => {
    ...
    const handleAddToCart = async () => {
      try {
        const storedCart = await AsyncStorage.getItem("cart");
        const cart: any[] = storedCart ? JSON.parse(storedCart) : [];
        const existingIndex = cart.findIndex((item) => item.id === product.id);
        if (existingIndex !== -1) { cart[existingIndex].quantity += 1; }
        else { cart.push({ ...product, quantity: 1 }); }
        await AsyncStorage.setItem("cart", JSON.stringify(cart));
        if (onAddToCart) onAddToCart(product);
      } catch (error) { console.error("Failed to add to cart:", error); }
    };
  \<close>
  The property \<^verbatim>\<open>onAddToCart?: (product: Product) => void\<close> is optional. A callback that
  is given runs after the write of the card has completed, on the storage that holds the
  cart the card wrote; its effects follow the card's.
\<close>

definition handleAddToCart_ProductCard ::
  "'f json \<Rightarrow> ('f product \<Rightarrow> storage \<Rightarrow> effect list) option \<Rightarrow> 'f product \<Rightarrow> storage
   \<Rightarrow> effect list" where
  "handleAddToCart_ProductCard J onAddToCart product st =
     (case stored_cart J (st ''cart'') of
        None \<Rightarrow> []
      | Some cart \<Rightarrow>
          (let cart' = (case findIndex (\<lambda>item. item_id item = prod_id product) cart of
                          Some existingIndex \<Rightarrow> add_quantity cart existingIndex (Finite 1)
                        | None \<Rightarrow> cart @ [spread_product product (Finite 1)]);
               write_cart = Set_item ''cart'' (JSON_stringify_cart J cart')
           in write_cart
              # (case onAddToCart of
                   None \<Rightarrow> []
                 | Some callback \<Rightarrow> callback product (apply_effect st write_cart))))"

subsection \<open>The feature screen: handleAddToCart\<close>

text \<open>
  \<^verbatim>\<open>
  const cart = JSON.parse((await AsyncStorage.getItem("cart")) || "[]") || [];
  const idx = cart.findIndex((c: any) => c.id === product.id);
  if (idx >= 0) cart[idx].quantity++;
  else cart.push({ ...product, quantity: 1 });
  await AsyncStorage.setItem("cart", JSON.stringify(cart));
  Toast.show({ type: "success", text1: `${product.name} added to cart!` });
  \<close>
  with \<^verbatim>\<open>Toast.show({ type: "error", text1: "Failed to add to cart." })\<close> in the catch
  block. A stored text that parses to a falsy value is read as the empty cart here.
\<close>

definition handleAddToCart_feature ::
  "'f json \<Rightarrow> 'f product \<Rightarrow> storage \<Rightarrow> effect list" where
  "handleAddToCart_feature J product st =
     (case (if truthy (st ''cart'') \<and> JSON_parse_falsy J (the (st ''cart'')) then Some []
            else stored_cart J (st ''cart'')) of
        None \<Rightarrow> [Toast_show Error ''Failed to add to cart.'']
      | Some cart \<Rightarrow>
          (let cart' = (case findIndex (\<lambda>c. item_id c = prod_id product) cart of
                          Some idx \<Rightarrow> add_quantity cart idx (Finite 1)
                        | None \<Rightarrow> cart @ [spread_product product (Finite 1)])
           in [Set_item ''cart'' (JSON_stringify_cart J cart'),
               Toast_show Success (prod_name product @ '' added to cart!'')]))"

subsection \<open>The home screen and the category screen: handleAddToCart\<close>

text \<open>
  HomeScreen (in the file EmployeeView.tsx):
  \<^verbatim>\<open>
  const handleAddToCart = async (p: Product) => {
    try {
      const stored = await AsyncStorage.getItem("cart");
      const cart: any[] = stored ? JSON.parse(stored) : [];
      const idx = cart.findIndex((x) => x.id === p.id);
      if (idx >= 0) cart[idx].quantity++;
      else cart.push({ ...p, quantity: 1 });
      await AsyncStorage.setItem("cart", JSON.stringify(cart));
    } catch { console.error("Add to cart failed"); }
  };
  \<close>
  CategoryScreen (in the file EmployeeHistory.tsx) reads the cart with
  \<^verbatim>\<open>JSON.parse((await AsyncStorage.getItem("cart")) || "[]")\<close> and has the steps and
  the toasts of the feature screen.
\<close>

definition handleAddToCart_HomeScreen ::
  "'f json \<Rightarrow> 'f product \<Rightarrow> storage \<Rightarrow> effect list" where
  "handleAddToCart_HomeScreen J p st =
     (case stored_cart J (st ''cart'') of
        None \<Rightarrow> []
      | Some cart \<Rightarrow>
          (let cart' = (case findIndex (\<lambda>x. item_id x = prod_id p) cart of
                          Some idx \<Rightarrow> add_quantity cart idx (Finite 1)
                        | None \<Rightarrow> cart @ [spread_product p (Finite 1)])
           in [Set_item ''cart'' (JSON_stringify_cart J cart')]))"

text \<open>
  HomeScreen calls its handleAddToCart in one place, the callback of the product cards
  that it renders (twice in the file, with the same properties):
  \<^verbatim>\<open><ProductCard product={prod} onAddToCart={() => handleAddToCart(prod)} />\<close>.
  The card calls its own handleAddToCart when it is pressed
  (\<^verbatim>\<open>onPress={handleAddToCart}\<close>), so this is one press of the add button of a card of
  the home screen.
\<close>

definition pressAddToCart_HomeScreen ::
  "'f json \<Rightarrow> 'f product \<Rightarrow> storage \<Rightarrow> effect list" where
  "pressAddToCart_HomeScreen J p st =
     handleAddToCart_ProductCard J (Some (\<lambda>_. handleAddToCart_HomeScreen J p)) p st"

definition handleAddToCart_CategoryScreen ::
  "'f json \<Rightarrow> 'f product \<Rightarrow> storage \<Rightarrow> effect list" where
  "handleAddToCart_CategoryScreen J p st =
     (case stored_cart J (st ''cart'') of
        None \<Rightarrow> [Toast_show Error ''Failed to add to cart.'']
      | Some cart \<Rightarrow>
          (let cart' = (case findIndex (\<lambda>c. item_id c = prod_id p) cart of
                          Some idx \<Rightarrow> add_quantity cart idx (Finite 1)
                        | None \<Rightarrow> cart @ [spread_product p (Finite 1)])
           in [Set_item ''cart'' (JSON_stringify_cart J cart'),
               Toast_show Success (prod_name p @ '' added to cart!'')]))"

subsection \<open>OrderDetails: reorderItems\<close>

text \<open>
  \<^verbatim>\<open>
  if (!orderData) return;
  try {
    const stored = await AsyncStorage.getItem("cart");
    const cart: any[] = stored ? JSON.parse(stored) : [];
    orderData.items.forEach((item) => {
      const idx = cart.findIndex((c) => c.id === item.id);
      if (idx >= 0) { cart[idx].quantity += item.quantity; }
      else { cart.push({ ...item }); }
    });
    await AsyncStorage.setItem("cart", JSON.stringify(cart));
    Toast.show({ type: "success", text1: "Items added to cart" });
  } catch (err) { Toast.show({ type: "error", text1: "Reorder failed" }); }
  \<close>
\<close>

definition reorder_item :: "'f cart_item list \<Rightarrow> 'f cart_item \<Rightarrow> 'f cart_item list" where
  "reorder_item cart item =
     (case findIndex (\<lambda>c. item_id c = item_id item) cart of
        Some idx \<Rightarrow> add_quantity cart idx (quantity item)
      | None \<Rightarrow> cart @ [item])"

definition reorderItems ::
  "'f json \<Rightarrow> 'f cart_item list option \<Rightarrow> storage \<Rightarrow> effect list" where
  "reorderItems J orderData_items st =
     (case orderData_items of
        None \<Rightarrow> []
      | Some items \<Rightarrow>
          (case stored_cart J (st ''cart'') of
             None \<Rightarrow> [Toast_show Error ''Reorder failed'']
           | Some cart \<Rightarrow>
               [Set_item ''cart'' (JSON_stringify_cart J (foldl reorder_item cart items)),
                Toast_show Success ''Items added to cart'']))"

section \<open>PickUpTime: confirmSelection\<close>

text \<open>
  \<^verbatim>\<open>
  const confirmSelection = async () => {
    if (!selectedSlot) { Toast.show({ type: 'error', text1: 'Select a time slot' }); return; }
    if (selectedSlot.capacity === 0) {
      Toast.show({ type: 'error', text1: 'That slot is not available' }); return; }
    const { data: sched, error: fetchErr } = await supabase
      .from("location_pickup_schedules").select("available_hours")
      .eq("location_id", locationId).eq("day_of_week", selectedDate.dayOfWeek).maybeSingle();
    if (fetchErr || !sched) {
      Toast.show({ type: 'error', text1: 'Could not update slot availability' }); return; }
    const updated = sched.available_hours.map(s =>
      s.time === selectedSlot.time && s.capacity != null && s.capacity > 0
        ? { ...s, capacity: s.capacity - 1 } : s);
    const { error: updateErr } = await supabase
      .from("location_pickup_schedules").update({ available_hours: updated })
      .eq("location_id", locationId).eq("day_of_week", selectedDate.dayOfWeek);
    if (updateErr) { Toast.show({ type: 'error', text1: 'Failed to reserve spot.' }); return; }
    ...
    const iso = full.toISOString();
    ...
    await AsyncStorage.setItem('selectedPickupTime', iso);
    await AsyncStorage.setItem('selectedPickupLabel', label);
    Toast.show({ type: 'success', text1: `Pickup time set: ${label}` });
    navigation.navigate('(tabs)/Cart');
  };
  \<close>
  The state of the screen and the answers of the backend are the arguments: the selected
  slot, the location id, the day of the week of the selected date, the answer of the
  re-fetch (\<open>Data None\<close> for no row, \<open>Data (Some None)\<close> for a row whose
  \<^verbatim>\<open>available_hours\<close> is null, on which \<^verbatim>\<open>.map\<close> throws), and whether the update
  answers with an error. The strings \<open>iso_str\<close> (the source's \<^verbatim>\<open>iso\<close>) and
  \<open>label\<close> are composed with the Date API from the selected date and the slot's time;
  \<open>iso_str\<close> is \<open>None\<close> where \<^verbatim>\<open>toISOString\<close> throws on an invalid date.
\<close>

definition decrement_slot :: "slot \<Rightarrow> slot \<Rightarrow> slot" where
  "decrement_slot selectedSlot s =
     (if time s = time selectedSlot \<and> capacity s \<noteq> None \<and> the (capacity s) > 0
      then s\<lparr>capacity := Some (the (capacity s) - 1)\<rparr>
      else s)"

definition confirmSelection ::
  "slot option \<Rightarrow> string option \<Rightarrow> nat \<Rightarrow> slot list option option response \<Rightarrow> bool
   \<Rightarrow> string option \<Rightarrow> string \<Rightarrow> effect list" where
  "confirmSelection selectedSlot locationId dayOfWeek fetched updateErr iso_str label =
     (case selectedSlot of
        None \<Rightarrow> [Toast_show Error ''Select a time slot'']
      | Some sel \<Rightarrow>
          if capacity sel = Some 0 then [Toast_show Error ''That slot is not available'']
          else Remote (Schedule_select locationId dayOfWeek) #
            (case fetched of
               Failed \<Rightarrow> [Toast_show Error ''Could not update slot availability'']
             | Data None \<Rightarrow> [Toast_show Error ''Could not update slot availability'']
             | Data (Some None) \<Rightarrow> [Uncaught ''TypeError'']
             | Data (Some (Some available_hours)) \<Rightarrow>
                 Remote (Schedule_update locationId dayOfWeek
                           (map (decrement_slot sel) available_hours)) #
                 (if updateErr then [Toast_show Error ''Failed to reserve spot.'']
                  else (case iso_str of
                          None \<Rightarrow> [Uncaught ''RangeError'']
                        | Some i \<Rightarrow>
                            [Set_item ''selectedPickupTime'' i,
                             Set_item ''selectedPickupLabel'' label,
                             Toast_show Success (''Pickup time set: '' @ label),
                             Navigate ''(tabs)/Cart'']))))"

section \<open>SelectStore and SelectLocation\<close>

text \<open>
  \<^verbatim>\<open>
  const pick = async (id: string) => {
    await AsyncStorage.setItem('selected_store_id', id);
    navigation.navigate('Login');
  };
  \<close>
\<close>

definition pick :: "string \<Rightarrow> effect list" where
  "pick i = [Set_item ''selected_store_id'' i, Navigate ''Login'']"

text \<open>
  \<^verbatim>\<open>
  const handleUseCurrentLocation = async () => {
    const current = { id: "current", name: "Current Location" };
    await AsyncStorage.setItem("selectedLocation", JSON.stringify(current));
    await AsyncStorage.setItem("location_id", "current");
    Toast.show({ type: "success", text1: "Using current location" });
    navigation.goBack();
  };
  const handleConfirmLocation = async () => {
    if (!selectedLocationId) {
      Toast.show({ type: "error", text1: "Select a location first" }); return; }
    const loc = locations.find((l) => l.id === selectedLocationId);
    if (!loc) return;
    await AsyncStorage.setItem("selectedLocation", JSON.stringify({ id: loc.id, name: loc.name }));
    await AsyncStorage.setItem("location_id", loc.id);
    Toast.show({ type: "success", text1: "Location confirmed" });
    navigation.navigate("(tabs)/index");
  };
  \<close>
  A location is given by its \<^verbatim>\<open>id\<close> and \<^verbatim>\<open>name\<close>; its address columns are not read
  by these handlers.
\<close>

definition handleUseCurrentLocation :: "'f json \<Rightarrow> effect list" where
  "handleUseCurrentLocation J =
     [Set_item ''selectedLocation'' (JSON_stringify_location J ''current'' ''Current Location''),
      Set_item ''location_id'' ''current'',
      Toast_show Success ''Using current location'',
      Go_back]"

definition handleConfirmLocation ::
  "'f json \<Rightarrow> string option \<Rightarrow> (string \<times> string) list \<Rightarrow> effect list" where
  "handleConfirmLocation J selectedLocationId locations =
     (if \<not> truthy selectedLocationId then [Toast_show Error ''Select a location first'']
      else (case find (\<lambda>l. fst l = the selectedLocationId) locations of
              None \<Rightarrow> []
            | Some loc \<Rightarrow>
                [Set_item ''selectedLocation'' (JSON_stringify_location J (fst loc) (snd loc)),
                 Set_item ''location_id'' (fst loc),
                 Toast_show Success ''Location confirmed'',
                 Navigate ''(tabs)/index'']))"

section \<open>The Cart screen\<close>

subsection \<open>The effect that clears the cart when the location changed\<close>

text \<open>
  \<^verbatim>\<open>
  useEffect(() => { (async () => {
    try {
      const sel = await AsyncStorage.getItem("selectedLocation");
      const currentLocObj = sel ? JSON.parse(sel) : null;
      const currentLocId = currentLocObj?.id ?? null;
      const savedCartLocId = await AsyncStorage.getItem("cartLocationId");
      const savedCartRaw = await AsyncStorage.getItem("cart");
      const savedCartArray: CartItemType[] = savedCartRaw ? JSON.parse(savedCartRaw) : [];
      if (savedCartArray.length > 0 && savedCartLocId && savedCartLocId !== currentLocId) {
        setCart([]);
        await AsyncStorage.removeItem("cart");
        Toast.show({ type: "info", text1: "Location changed - cart was cleared." });
      }
    } catch (err) { console.error("Error checking location change:", err); }
  })(); }, []);
  \<close>
  The result is the in-memory cart after the effect and what the effect did. (The toast's
  text has an en dash in the source where it has a hyphen here.)
\<close>

definition clearCartIfLocationChanged ::
  "'f json \<Rightarrow> 'f cart_item list \<Rightarrow> storage \<Rightarrow> 'f cart_item list \<times> effect list" where
  "clearCartIfLocationChanged J cart st =
     (case currentLocId J st of
        None \<Rightarrow> (cart, [])
      | Some currentLoc \<Rightarrow>
          (let savedCartLocId = st ''cartLocationId''
           in case stored_cart J (st ''cart'') of
                None \<Rightarrow> (cart, [])
              | Some savedCartArray \<Rightarrow>
                  if length savedCartArray > 0 \<and> truthy savedCartLocId
                     \<and> savedCartLocId \<noteq> currentLoc
                  then ([], [Remove_item ''cart'',
                             Toast_show Info ''Location changed - cart was cleared.''])
                  else (cart, [])))"

subsection \<open>persist and the handlers that call it\<close>

text \<open>
  \<^verbatim>\<open>
  const persist = async (newCart: CartItemType[]) => {
    setCart(newCart);
    await AsyncStorage.setItem("cart", JSON.stringify(newCart));
    const sel = await AsyncStorage.getItem("selectedLocation");
    const currentLocObj = sel ? JSON.parse(sel) : null;
    const currentLocId = currentLocObj?.id ?? null;
    if (newCart.length > 0 && currentLocId) {
      await AsyncStorage.setItem("cartLocationId", currentLocId);
    } else {
      await AsyncStorage.removeItem("cartLocationId");
    }
  };
  \<close>
  persist has no try block: where \<^verbatim>\<open>JSON.parse(sel)\<close> throws, the exception leaves it
  after the cart was written.
\<close>

definition persist ::
  "'f json \<Rightarrow> 'f cart_item list \<Rightarrow> storage \<Rightarrow> 'f cart_item list \<times> effect list" where
  "persist J newCart st =
     (let write_cart = Set_item ''cart'' (JSON_stringify_cart J newCart)
      in case currentLocId J (apply_effect st write_cart) of
           None \<Rightarrow> (newCart, [write_cart, Uncaught ''SyntaxError''])
         | Some currentLoc \<Rightarrow>
             if length newCart > 0 \<and> truthy currentLoc
             then (newCart, [write_cart, Set_item ''cartLocationId'' (the currentLoc)])
             else (newCart, [write_cart, Remove_item ''cartLocationId'']))"

text \<open>
  \<^verbatim>\<open>
  const handleIncrement = (id: string) =>
    persist(cart.map(i => i.id === id ? { ...i, quantity: i.quantity + 1 } : i));
  const handleDecrement = (id: string) =>
    persist(cart.map(i => i.id === id && i.quantity > 1 ? { ...i, quantity: i.quantity - 1 } : i));
  const handleDelete = async (id: string) => {
    const updated = cart.filter(i => i.id !== id);
    await persist(updated);
    Toast.show({ type: "success", text1: "Item removed from cart" });
  };
  const handleClearCart = async () => {
    setCart([]);
    await AsyncStorage.removeItem("cart");
    await AsyncStorage.removeItem("cartLocationId");
    Toast.show({ type: "success", text1: "Cart cleared" });
  };
  \<close>
\<close>

definition handleIncrement ::
  "'f json \<Rightarrow> string \<Rightarrow> 'f cart_item list \<Rightarrow> storage \<Rightarrow> 'f cart_item list \<times> effect list" where
  "handleIncrement J i cart st =
     persist J (map (\<lambda>it. if item_id it = i
                          then it\<lparr>quantity := js_add (quantity it) (Finite 1)\<rparr> else it) cart) st"

definition handleDecrement ::
  "'f json \<Rightarrow> string \<Rightarrow> 'f cart_item list \<Rightarrow> storage \<Rightarrow> 'f cart_item list \<times> effect list" where
  "handleDecrement J i cart st =
     persist J (map (\<lambda>it. if item_id it = i \<and> js_gt (quantity it) (Finite 1)
                          then it\<lparr>quantity := js_sub (quantity it) (Finite 1)\<rparr> else it) cart) st"

definition handleDelete ::
  "'f json \<Rightarrow> string \<Rightarrow> 'f cart_item list \<Rightarrow> storage \<Rightarrow> 'f cart_item list \<times> effect list" where
  "handleDelete J i cart st =
     (let updated = filter (\<lambda>it. item_id it \<noteq> i) cart;
          (cart', es) = persist J updated st
      in if Uncaught ''SyntaxError'' \<in> set es then (cart', es)
         else (cart', es @ [Toast_show Success ''Item removed from cart'']))"

definition handleClearCart :: "'f cart_item list \<times> effect list" where
  "handleClearCart =
     ([], [Remove_item ''cart'', Remove_item ''cartLocationId'',
           Toast_show Success ''Cart cleared''])"

subsection \<open>placeOrder\<close>

text \<open>
  What placeOrder reads besides the state of the screen and the storage: the user of the
  session (\<^verbatim>\<open>supabase.auth.getUser()\<close>), the barcode from \<^verbatim>\<open>uuid.v4()\<close>, the time
  stamp from \<^verbatim>\<open>new Date().toISOString()\<close>, the answer to the insert into \<^verbatim>\<open>orders\<close>
  (the ids of the rows that \<^verbatim>\<open>.select("id")\<close> returns), the \<^verbatim>\<open>data\<close> of the
  query on \<^verbatim>\<open>products\<close> (\<open>None\<close> for null), and whether the insert into
  \<^verbatim>\<open>order_items\<close> answers with an error.
\<close>

record order_env =
  auth_user :: "string option"
  uuid_v4 :: string
  now_iso :: string
  orders_insert :: "string list response"
  products_select :: "string list option"
  order_items_insert_error :: bool

text \<open>
  \<^verbatim>\<open>
  const placeOrder = async () => {
    if (!selectedPaymentId) {
      Toast.show({ type: "error", text1: "Please select a payment method." }); return; }
    const { data: { user } } = await supabase.auth.getUser();
    const sel = await AsyncStorage.getItem("selectedLocation");
    const locationObj = sel ? JSON.parse(sel) : null;
    const locationId = locationObj?.id ?? null;
    ...
    const barcode = uuid.v4() as string;
    const { data: od, error: oe } = await supabase.from("orders")
      .insert([{ user_id: user!.id, location_id: locationId, ..., status: "Pending", barcode,
                 payment_id: selectedPaymentId, created_at: new Date().toISOString(),
                 pickup_time: pickupTime }])
      .select("id");
    if (oe || !od?.length) {
      Toast.show({ type: "error", text1: "Failed to create order." }); return; }
    const orderId = od[0].id;
    const cartIds = cart.map(i => i.id);
    const { data: validProducts } = await supabase.from("products").select("id").in("id", cartIds);
    if ((validProducts?.length ?? 0) !== cart.length) {
      Toast.show({ type: "error", text1: "Some items are no longer available." }); return; }
    const items = cart.map(i => ({ order_id: orderId, product_id: i.id, quantity: i.quantity,
                                   unit_price: i.price }));
    const { error: oie } = await supabase.from("order_items").insert(items);
    if (oie) { Toast.show({ type: "error", text1: "Failed to insert items." }); return; }
    setCart([]);
    await AsyncStorage.removeItem("cart");
    await AsyncStorage.removeItem("cartLocationId");
    Toast.show({ type: "success", text1: "Order placed successfully!" });
    navigation.navigate("OrderDetails", { orderId });
  };
  \<close>
  placeOrder has no try block: \<^verbatim>\<open>JSON.parse(sel)\<close> and \<^verbatim>\<open>user!.id\<close> on a null user
  throw before the insert is issued.
\<close>

definition placeOrder ::
  "'f json \<Rightarrow> 'f cart_item list \<Rightarrow> string option \<Rightarrow> string \<Rightarrow> order_env \<Rightarrow> storage
   \<Rightarrow> 'f cart_item list \<times> effect list" where
  "placeOrder J cart selectedPaymentId pickupTime env st =
     (if \<not> truthy selectedPaymentId
      then (cart, [Toast_show Error ''Please select a payment method.''])
      else
       (case currentLocId J st of
          None \<Rightarrow> (cart, [Remote Auth_getUser, Uncaught ''SyntaxError''])
        | Some locationId \<Rightarrow>
           (case auth_user env of
              None \<Rightarrow> (cart, [Remote Auth_getUser, Uncaught ''TypeError''])
            | Some uid \<Rightarrow>
               (let row = \<lparr>user_id = uid, location_id = locationId, status = ''Pending'',
                           barcode = uuid_v4 env, payment_id = the selectedPaymentId,
                           created_at = now_iso env, pickup_time = pickupTime\<rparr>;
                    begun = [Remote Auth_getUser, Remote (Orders_insert row)]
                in case orders_insert env of
                     Failed \<Rightarrow> (cart, begun @ [Toast_show Error ''Failed to create order.''])
                   | Data [] \<Rightarrow> (cart, begun @ [Toast_show Error ''Failed to create order.''])
                   | Data (orderId # _) \<Rightarrow>
                      (let cartIds = map item_id cart;
                           checked = begun @ [Remote (Products_select_in cartIds)]
                       in if (case products_select env of None \<Rightarrow> 0 | Some v \<Rightarrow> length v)
                             \<noteq> length cart
                          then (cart, checked @
                                  [Toast_show Error ''Some items are no longer available.''])
                          else
                           (let items = map (\<lambda>i. \<lparr>order_id = orderId, product_id = item_id i,
                                                     ordered_quantity = quantity i\<rparr>) cart;
                                inserted = checked @ [Remote (Order_items_insert items)]
                            in if order_items_insert_error env
                               then (cart, inserted @
                                       [Toast_show Error ''Failed to insert items.''])
                               else ([], inserted @
                                       [Remove_item ''cart'', Remove_item ''cartLocationId'',
                                        Toast_show Success ''Order placed successfully!'',
                                        Navigate ''OrderDetails''])))))))"

text \<open>
  The backend's answer to \<^verbatim>\<open>.from("products").select("id").in("id", cartIds)\<close> when the
  query succeeds: the ids of the table (its primary key) that are among \<open>cartIds\<close>.
\<close>

definition select_id_in :: "string list \<Rightarrow> string list \<Rightarrow> string list" where
  "select_id_in table cartIds = filter (\<lambda>r. r \<in> set cartIds) table"

section \<open>ScanBarcode\<close>

text \<open>
  The state of the screen: \<^verbatim>\<open>isScanning\<close>, \<^verbatim>\<open>modalVisible\<close> and \<^verbatim>\<open>currentOrder\<close>
  (\<^verbatim>\<open>{ id, orderNumber, status }\<close>); the camera's facing plays no part in the handlers.
  An awaited query either throws (\<open>Thrown\<close>, the handler's catch block runs) or
  returns its answer.
\<close>

record order_info =
  scanned_id :: string
  orderNumber :: string
  scanned_status :: string

record scan_state =
  isScanning :: bool
  modalVisible :: bool
  currentOrder :: "order_info option"

datatype 'a attempt = Thrown | Returned "'a response"

text \<open>
  \<^verbatim>\<open>
  const handleBarcodeScanned = async (scanningResult: BarcodeScanningResult) => {
    if (!isScanning || !scanningResult.data) return;
    setIsScanning(false);
    const scannedValue = scanningResult.data;
    try {
      const { data: orderData, error: orderError } = await supabase.from("orders")
        .select("id, order_number, status").eq("barcode", scannedValue).single();
      if (orderError || !orderData) {
        Alert.alert("Error", "Barcode not found or fetch failed.",
          [{ text: "OK", onPress: () => setIsScanning(true) }]);
        return;
      }
      const { id, order_number: orderNumber, status } = orderData;
      openModalForOrder({ id, orderNumber, status });
    } catch (e) {
      Alert.alert("Error", "An unexpected error occurred.",
        [{ text: "OK", onPress: () => setIsScanning(true) }]);
    }
  };
  \<close>
  where \<^verbatim>\<open>openModalForOrder(order)\<close> is \<^verbatim>\<open>setCurrentOrder(order); setModalVisible(true)\<close>.
\<close>

definition handleBarcodeScanned ::
  "string \<Rightarrow> order_info option attempt \<Rightarrow> scan_state \<Rightarrow> scan_state \<times> effect list" where
  "handleBarcodeScanned scannedValue answer s =
     (if \<not> isScanning s \<or> scannedValue = [] then (s, [])
      else
       (let s1 = s\<lparr>isScanning := False\<rparr>;
            query = Remote (Orders_select_by_barcode scannedValue)
        in case answer of
             Thrown \<Rightarrow> (s1, [query, Alert_alert ''Error'' ''An unexpected error occurred.''])
           | Returned Failed \<Rightarrow>
               (s1, [query, Alert_alert ''Error'' ''Barcode not found or fetch failed.''])
           | Returned (Data None) \<Rightarrow>
               (s1, [query, Alert_alert ''Error'' ''Barcode not found or fetch failed.''])
           | Returned (Data (Some orderData)) \<Rightarrow>
               (s1\<lparr>currentOrder := Some orderData, modalVisible := True\<rparr>, [query])))"

text \<open>
  \<^verbatim>\<open>
  const markCompleted = async () => {
    if (!currentOrder) return;
    try {
      const { error: updateError } = await supabase.from("orders")
        .update({ status: "Completed" }).eq("id", currentOrder.id);
      if (updateError) { Alert.alert("Error", "Failed to mark as completed.", ...); }
      else { Alert.alert("Success", "Order status updated to Completed.", ...); }
    } catch (e) { Alert.alert("Error", "An unexpected error occurred.", ...); }
  };
  \<close>
\<close>

definition markCompleted ::
  "unit attempt \<Rightarrow> scan_state \<Rightarrow> scan_state \<times> effect list" where
  "markCompleted answer s =
     (case currentOrder s of
        None \<Rightarrow> (s, [])
      | Some ord \<Rightarrow>
          (let update = Remote (Orders_update_status (scanned_id ord) ''Completed'')
           in case answer of
                Thrown \<Rightarrow> (s, [update, Alert_alert ''Error'' ''An unexpected error occurred.''])
              | Returned Failed \<Rightarrow>
                  (s, [update, Alert_alert ''Error'' ''Failed to mark as completed.''])
              | Returned (Data u) \<Rightarrow>
                  (s, [update, Alert_alert ''Success'' ''Order status updated to Completed.''])))"

text \<open>
  What can happen on the screen: a scan with the backend's answer, a press on Mark as
  Completed with the backend's answer, the OK button of a scan alert
  (\<^verbatim>\<open>setIsScanning(true)\<close>), and the OK button of a markCompleted alert or the closing of
  the modal (\<^verbatim>\<open>setModalVisible(false); setIsScanning(true)\<close>).
\<close>

datatype scan_action =
    Scan string "order_info option attempt"
  | Mark_completed "unit attempt"
  | Scan_alert_ok
  | Modal_close

fun scan_step :: "scan_action \<Rightarrow> scan_state \<Rightarrow> scan_state \<times> effect list" where
  "scan_step (Scan scannedValue answer) s = handleBarcodeScanned scannedValue answer s"
| "scan_step (Mark_completed answer) s = markCompleted answer s"
| "scan_step Scan_alert_ok s = (s\<lparr>isScanning := True\<rparr>, [])"
| "scan_step Modal_close s = (s\<lparr>modalVisible := False, isScanning := True\<rparr>, [])"

fun scan_run :: "scan_action list \<Rightarrow> scan_state \<Rightarrow> scan_state \<times> effect list" where
  "scan_run [] s = (s, [])"
| "scan_run (a # as) s =
     (let (s1, es1) = scan_step a s; (s2, es2) = scan_run as s1 in (s2, es1 @ es2))"

definition scan_initial :: scan_state where
  "scan_initial = \<lparr>isScanning = True, modalVisible = False, currentOrder = None\<rparr>"

text \<open>The orders that the scans of a run fetched.\<close>

fun fetched_orders :: "scan_action list \<Rightarrow> order_info list" where
  "fetched_orders [] = []"
| "fetched_orders (Scan v (Returned (Data (Some ord))) # as) = ord # fetched_orders as"
| "fetched_orders (a # as) = fetched_orders as"

section \<open>Runs of the Cart screen\<close>

text \<open>
  The quantity buttons, the delete button and the Clear button of the Cart screen, run
  one after the other on the in-memory cart and the storage.
\<close>

datatype cart_action = Increment string | Decrement string | Delete string | Clear

fun cart_step ::
  "'f json \<Rightarrow> cart_action \<Rightarrow> 'f cart_item list \<times> storage \<Rightarrow> 'f cart_item list \<times> storage" where
  "cart_step J (Increment i) (cart, st) =
     (let (cart', es) = handleIncrement J i cart st in (cart', storage_after st es))"
| "cart_step J (Decrement i) (cart, st) =
     (let (cart', es) = handleDecrement J i cart st in (cart', storage_after st es))"
| "cart_step J (Delete i) (cart, st) =
     (let (cart', es) = handleDelete J i cart st in (cart', storage_after st es))"
| "cart_step J Clear (cart, st) =
     (let (cart', es) = handleClearCart in (cart', storage_after st es))"

definition cart_run ::
  "'f json \<Rightarrow> cart_action list \<Rightarrow> 'f cart_item list \<times> storage \<Rightarrow> 'f cart_item list \<times> storage" where
  "cart_run J acts start = foldl (\<lambda>state a. cart_step J a state) start acts"

section \<open>The session of the backend's client library\<close>

text \<open>
  The client of the backend is created in src/auth/apple.ts with
  \<^verbatim>\<open>
  export const supabase = createClient(SUPABASE_URL, SUPABASE_ANON_KEY, {
    auth: { storage: AsyncStorage, autoRefreshToken: true, persistSession: true,
            detectSessionInUrl: false },
    ...
  \<close>
  and the screens call \<^verbatim>\<open>supabase.auth.signUp\<close>, \<^verbatim>\<open>signInWithPassword\<close>,
  \<^verbatim>\<open>signInWithIdToken\<close>, \<^verbatim>\<open>signInWithOAuth\<close> and \<^verbatim>\<open>signOut\<close>; with
  \<^verbatim>\<open>autoRefreshToken\<close> the library also renews the session on its own.
\<close>

datatype auth_call =
    SignUp | SignInWithPassword | SignInWithIdToken | SignInWithOAuth | RefreshToken | SignOut

text \<open>
  Modelled from the spec: the library is not part of the repository. The spec names
  ``local device key-value storage for cart/session caching''; with the configuration
  above the library keeps the session in AsyncStorage under one key of its own
  (\<open>session_key\<close>, a parameter): a call that yields a session (\<open>Some\<close> of its text) stores
  it there, a call that yields none stores nothing, and signing out removes the key.
\<close>

definition auth_session :: "string \<Rightarrow> auth_call \<Rightarrow> string option \<Rightarrow> effect list" where
  "auth_session session_key call session =
     (if call = SignOut then [Remove_item session_key]
      else case session of None \<Rightarrow> [] | Some text_of_session \<Rightarrow> [Set_item session_key text_of_session])"

section \<open>The operations that write to the local storage\<close>

text \<open>
  Every call of \<^verbatim>\<open>AsyncStorage.setItem\<close> and \<^verbatim>\<open>AsyncStorage.removeItem\<close> in the
  application is in one of the handlers above, and no other AsyncStorage function that
  writes is called; the other writes to the storage are those of the client library for
  its session. An operation is one of these handlers with its arguments, as the screens
  call it, or a call of the authentication interface with the session it yields.
\<close>

datatype 'f operation =
    Add_ProductDetails "'f product" jsnum
  | Add_HomeScreen_card "'f product"
  | Add_feature "'f product"
  | Add_CategoryScreen "'f product"
  | Reorder_items "'f cart_item list option"
  | Confirm_selection "slot option" "string option" nat "slot list option option response"
      bool "string option" string
  | Pick_store string
  | Use_current_location
  | Confirm_location "string option" "(string \<times> string) list"
  | Cart_mounted "'f cart_item list"
  | Cart_increment string "'f cart_item list"
  | Cart_decrement string "'f cart_item list"
  | Cart_delete string "'f cart_item list"
  | Cart_clear
  | Place_order "'f cart_item list" "string option" string order_env
  | Auth auth_call "string option"

fun perform :: "'f json \<Rightarrow> string \<Rightarrow> storage \<Rightarrow> 'f operation \<Rightarrow> effect list" where
  "perform J session_key st (Add_ProductDetails p qty) = handleAddToCart_ProductDetails J p qty st"
| "perform J session_key st (Add_HomeScreen_card p) = pressAddToCart_HomeScreen J p st"
| "perform J session_key st (Add_feature p) = handleAddToCart_feature J p st"
| "perform J session_key st (Add_CategoryScreen p) = handleAddToCart_CategoryScreen J p st"
| "perform J session_key st (Reorder_items items) = reorderItems J items st"
| "perform J session_key st (Confirm_selection sel loc day fetched updateErr iso_str label) =
     confirmSelection sel loc day fetched updateErr iso_str label"
| "perform J session_key st (Pick_store i) = pick i"
| "perform J session_key st Use_current_location = handleUseCurrentLocation J"
| "perform J session_key st (Confirm_location sel locations) =
     handleConfirmLocation J sel locations"
| "perform J session_key st (Cart_mounted cart) = snd (clearCartIfLocationChanged J cart st)"
| "perform J session_key st (Cart_increment i cart) = snd (handleIncrement J i cart st)"
| "perform J session_key st (Cart_decrement i cart) = snd (handleDecrement J i cart st)"
| "perform J session_key st (Cart_delete i cart) = snd (handleDelete J i cart st)"
| "perform J session_key st Cart_clear =
     snd (handleClearCart :: 'f cart_item list \<times> effect list)"
| "perform J session_key st (Place_order cart pay pickupTime env) =
     snd (placeOrder J cart pay pickupTime env st)"
| "perform J session_key st (Auth call session) = auth_session session_key call session"

text \<open>The keys of the local storage, by what they hold.\<close>

definition cart_keys :: "string set" where
  "cart_keys = {''cart'', ''cartLocationId''}"

definition location_keys :: "string set" where
  "location_keys = {''selectedLocation'', ''location_id''}"

definition store_keys :: "string set" where
  "store_keys = {''selected_store_id''}"

definition pickup_keys :: "string set" where
  "pickup_keys = {''selectedPickupTime'', ''selectedPickupLabel''}"

section \<open>What the claims say about carts\<close>


text \<open>
  A quantity that is a whole number from 1 to \<open>2 ^ 53\<close>, the range in which the doubles
  count in steps of one.
\<close>

definition whole_quantity :: "jsnum \<Rightarrow> bool" where
  "whole_quantity q =
     (case q of Finite r \<Rightarrow> r = of_int \<lfloor>r\<rfloor> \<and> 1 \<le> r \<and> r \<le> 2 ^ 53 | _ \<Rightarrow> False)"

text \<open>Every line item has a quantity of at least 1 (\<^verbatim>\<open>quantity >= 1\<close>).\<close>

definition quantities_at_least_one :: "'f cart_item list \<Rightarrow> bool" where
  "quantities_at_least_one cart =
     list_all (\<lambda>it. quantity it = Finite 1 \<or> js_gt (quantity it) (Finite 1)) cart"

text \<open>Every line item has a whole quantity from 1 to \<open>2 ^ 53\<close>.\<close>

definition whole_quantities :: "'f cart_item list \<Rightarrow> bool" where
  "whole_quantities cart = list_all (\<lambda>it. whole_quantity (quantity it)) cart"

section \<open>A sample codec and sample data\<close>

text \<open>
  Concrete parameters for running the handlers on examples: a codec that knows some
  carts and two locations by their texts.
\<close>

definition milk :: "unit product" where
  "milk = \<lparr>prod_id = ''p1'', prod_name = ''Milk'', prod_other = ()\<rparr>"


definition sample_carts :: "(unit cart_item list \<times> string) list" where
  "sample_carts =
     [([],
       ''[]''),
      ([\<lparr>item_id = ''p1'', item_name = ''Milk'', quantity = Finite 1, item_other = ()\<rparr>],
       ''[{id:p1,name:Milk,quantity:1}]''),
      ([\<lparr>item_id = ''p1'', item_name = ''Milk'', quantity = Finite 2, item_other = ()\<rparr>],
       ''[{id:p1,name:Milk,quantity:2}]''),
      ([\<lparr>item_id = ''p1'', item_name = ''Milk'', quantity = Finite 3, item_other = ()\<rparr>],
       ''[{id:p1,name:Milk,quantity:3}]''),
      ([\<lparr>item_id = ''p1'', item_name = ''Milk'', quantity = Finite 9007199254740992, item_other = ()\<rparr>],
       ''[{id:p1,name:Milk,quantity:9007199254740992}]''),
      ([\<lparr>item_id = ''p1'', item_name = ''Milk'', quantity = Finite (3 / 2), item_other = ()\<rparr>],
       ''[{id:p1,name:Milk,quantity:1.5}]''),
      ([\<lparr>item_id = ''p1'', item_name = ''Milk'', quantity = Finite (1 / 2), item_other = ()\<rparr>],
       ''[{id:p1,name:Milk,quantity:0.5}]''),
      ([\<lparr>item_id = ''p2'', item_name = ''Bread'', quantity = Finite 1, item_other = ()\<rparr>],
       ''[{id:p2,name:Bread,quantity:1}]''),
      ([\<lparr>item_id = ''p2'', item_name = ''Bread'', quantity = Finite 2, item_other = ()\<rparr>],
       ''[{id:p2,name:Bread,quantity:2}]''),
      ([\<lparr>item_id = ''p1'', item_name = ''Milk'', quantity = Finite 1, item_other = ()\<rparr>,
        \<lparr>item_id = ''p2'', item_name = ''Bread'', quantity = Finite 1, item_other = ()\<rparr>],
       ''[{id:p1,name:Milk,quantity:1},{id:p2,name:Bread,quantity:1}]''),
      ([\<lparr>item_id = ''p1'', item_name = ''Milk'', quantity = Finite 2, item_other = ()\<rparr>,
        \<lparr>item_id = ''p2'', item_name = ''Bread'', quantity = Finite 1, item_other = ()\<rparr>],
       ''[{id:p1,name:Milk,quantity:2},{id:p2,name:Bread,quantity:1}]'')]"

definition sample_json :: "unit json" where
  "sample_json =
     \<lparr>JSON_parse_cart = (\<lambda>s. map_option fst (find (\<lambda>e. snd e = s) sample_carts)),
      JSON_parse_falsy = (\<lambda>s. s = ''null'' \<or> s = ''false'' \<or> s = ''0''),
      JSON_stringify_cart =
        (\<lambda>c. case find (\<lambda>e. fst e = c) sample_carts of Some e \<Rightarrow> snd e | None \<Rightarrow> ''[...]''),
      JSON_parse_location =
        (\<lambda>s. if s = ''{id:loc-1,name:Main Street}'' then Some (Some ''loc-1'')
             else if s = ''{id:loc-2,name:Harbour}'' then Some (Some ''loc-2'')
             else if s = ''{}'' then Some None
             else None),
      JSON_stringify_location = (\<lambda>i n. ''{id:'' @ i @ '',name:'' @ n @ ''}'')\<rparr>"

section \<open>Properties of formatPhoneNumber\<close>

lemma hyphen_not_digit: "\<not> is_digit CHR ''-''"
  by (simp add: is_digit_def)

lemma formatPhoneNumber_cases:
  assumes "d = take 10 (filter is_digit v)"
  shows "formatPhoneNumber v =
     (if length d > 6 then take 3 d @ ''-'' @ take 3 (drop 3 d) @ ''-'' @ drop 6 d
      else if length d > 3 then take 3 d @ ''-'' @ drop 3 d
      else d)"
proof -
  have s: "slice (filter is_digit v) 0 10 = d"
    by (simp add: slice_def assms)
  show ?thesis
    unfolding formatPhoneNumber_def Let_def s by (simp add: slice_def slice_from_def)
qed

lemma all_digits_filter: "\<forall>c \<in> set d. is_digit c \<Longrightarrow> filter is_digit d = d"
  by (rule filter_True) simp

lemma all_digits_take: "\<forall>c \<in> set d. is_digit c \<Longrightarrow> filter is_digit (take n d) = take n d"
  by (rule filter_True) (auto dest: in_set_takeD)

lemma all_digits_drop: "\<forall>c \<in> set d. is_digit c \<Longrightarrow> filter is_digit (drop n d) = drop n d"
  by (rule filter_True) (auto dest: in_set_dropD)

lemma split_three_groups: "take 3 d @ take 3 (drop 3 d) @ drop 6 d = d"
proof -
  have "take 3 (drop 3 d) @ drop 6 d = drop 3 d"
    using append_take_drop_id [of 3 "drop 3 d"] by simp
  then show ?thesis by (simp only: append_take_drop_id)
qed

lemma digits_of_formatPhoneNumber:
  "filter is_digit (formatPhoneNumber v) = take 10 (filter is_digit v)"
proof -
  define d where "d = take 10 (filter is_digit v)"
  have dig: "\<forall>c \<in> set d. is_digit c"
    unfolding d_def by (auto dest: in_set_takeD)
  have td: "filter is_digit (take 3 (drop 3 d)) = take 3 (drop 3 d)"
    by (rule filter_True) (use dig in \<open>auto dest!: in_set_takeD in_set_dropD\<close>)
  have "filter is_digit (formatPhoneNumber v) = d"
    unfolding formatPhoneNumber_cases [OF d_def]
    using split_three_groups [of d] append_take_drop_id [of 3 d]
    by (simp add: hyphen_not_digit all_digits_take [OF dig] all_digits_drop [OF dig]
          all_digits_filter [OF dig] td)
  then show ?thesis by (simp only: d_def)
qed

text \<open>
  C9: for every input, the digits of the output are the first ten digits of the input in
  their order (so at most ten); the output is those digits alone when there are at most
  three, two groups 3-rest joined by a hyphen when there are four to six, and three
  groups 3-3-rest (the last of one to four digits) when there are more; and formatting
  the output again returns it unchanged.
\<close>

theorem formatPhoneNumber_idempotent_bounded:
  "filter is_digit (formatPhoneNumber v) = take 10 (filter is_digit v)
   \<and> length (filter is_digit (formatPhoneNumber v)) \<le> 10
   \<and> (let d = take 10 (filter is_digit v) in
        if length d \<le> 3 then formatPhoneNumber v = d
        else if length d \<le> 6 then
          (\<exists>a b. formatPhoneNumber v = a @ ''-'' @ b \<and> a @ b = d
                 \<and> length a = 3 \<and> 1 \<le> length b \<and> length b \<le> 3)
        else
          (\<exists>a b c. formatPhoneNumber v = a @ ''-'' @ b @ ''-'' @ c \<and> a @ b @ c = d
                 \<and> length a = 3 \<and> length b = 3 \<and> 1 \<le> length c \<and> length c \<le> 4))
   \<and> formatPhoneNumber (formatPhoneNumber v) = formatPhoneNumber v"
proof (intro conjI)
  define d where "d = take 10 (filter is_digit v)"
  have len: "length d \<le> 10" unfolding d_def by simp
  show dig: "filter is_digit (formatPhoneNumber v) = take 10 (filter is_digit v)"
    by (rule digits_of_formatPhoneNumber)
  show "length (filter is_digit (formatPhoneNumber v)) \<le> 10"
    by (simp add: dig)
  have shape: "if length d \<le> 3 then formatPhoneNumber v = d
        else if length d \<le> 6 then
          (\<exists>a b. formatPhoneNumber v = a @ ''-'' @ b \<and> a @ b = d
                 \<and> length a = 3 \<and> 1 \<le> length b \<and> length b \<le> 3)
        else
          (\<exists>a b c. formatPhoneNumber v = a @ ''-'' @ b @ ''-'' @ c \<and> a @ b @ c = d
                 \<and> length a = 3 \<and> length b = 3 \<and> 1 \<le> length c \<and> length c \<le> 4)"
  proof -
    consider (short) "length d \<le> 3" | (mid) "3 < length d" "length d \<le> 6"
      | (long) "6 < length d" by linarith
    then show ?thesis
    proof cases
      case short
      then show ?thesis by (simp add: formatPhoneNumber_cases [OF d_def])
    next
      case mid
      have f: "formatPhoneNumber v = take 3 d @ ''-'' @ drop 3 d"
        using mid by (simp add: formatPhoneNumber_cases [OF d_def])
      have "take 3 d @ drop 3 d = d \<and> length (take 3 d) = 3
            \<and> 1 \<le> length (drop 3 d) \<and> length (drop 3 d) \<le> 3"
        using mid by auto
      with f have "\<exists>a b. formatPhoneNumber v = a @ ''-'' @ b \<and> a @ b = d
                 \<and> length a = 3 \<and> 1 \<le> length b \<and> length b \<le> 3"
        by blast
      with mid show ?thesis by simp
    next
      case long
      have f: "formatPhoneNumber v
               = take 3 d @ ''-'' @ take 3 (drop 3 d) @ ''-'' @ drop 6 d"
        using long by (simp add: formatPhoneNumber_cases [OF d_def])
      have "take 3 d @ take 3 (drop 3 d) @ drop 6 d = d \<and> length (take 3 d) = 3
            \<and> length (take 3 (drop 3 d)) = 3
            \<and> 1 \<le> length (drop 6 d) \<and> length (drop 6 d) \<le> 4"
        using long len split_three_groups [of d] by auto
      with f have "\<exists>a b c. formatPhoneNumber v = a @ ''-'' @ b @ ''-'' @ c \<and> a @ b @ c = d
                 \<and> length a = 3 \<and> length b = 3 \<and> 1 \<le> length c \<and> length c \<le> 4"
        by blast
      with long show ?thesis by simp
    qed
  qed
  then show "let d = take 10 (filter is_digit v) in
        if length d \<le> 3 then formatPhoneNumber v = d
        else if length d \<le> 6 then
          (\<exists>a b. formatPhoneNumber v = a @ ''-'' @ b \<and> a @ b = d
                 \<and> length a = 3 \<and> 1 \<le> length b \<and> length b \<le> 3)
        else
          (\<exists>a b c. formatPhoneNumber v = a @ ''-'' @ b @ ''-'' @ c \<and> a @ b @ c = d
                 \<and> length a = 3 \<and> length b = 3 \<and> 1 \<le> length c \<and> length c \<le> 4)"
    unfolding Let_def d_def .
  show "formatPhoneNumber (formatPhoneNumber v) = formatPhoneNumber v"
  proof -
    have "d = take 10 (filter is_digit (formatPhoneNumber v))"
      by (simp add: dig d_def)
    from formatPhoneNumber_cases [OF this] formatPhoneNumber_cases [OF d_def]
    show ?thesis by simp
  qed
qed

theorem formatPhoneNumber_idempotent_bounded_witness:
  "formatPhoneNumber ''(555) 123-4567 ext 89'' = ''555-123-4567''
   \<and> formatPhoneNumber ''555-123-4567'' = ''555-123-4567''
   \<and> formatPhoneNumber (formatPhoneNumber ''(555) 123-4567 ext 89'')
     = formatPhoneNumber ''(555) 123-4567 ext 89''"
  using formatPhoneNumber_idempotent_bounded [of "''(555) 123-4567 ext 89''"]
  by (simp add: formatPhoneNumber_def slice_def slice_from_def is_digit_def)

section \<open>Properties of the numbers\<close>

lemma round_half_even_int: "round_half_even (of_int k) = k"
  by (simp add: round_half_even_def)

lemma binade_int:
  assumes "0 < a"
  shows "binade (of_int a) = bitlen a - 1"
proof -
  have q: "quotient_of \<bar>of_int a :: rat\<bar> = (a, 1)"
    using assms by simp
  have b1: "bitlen 1 = 1" by (simp add: compute_bitlen)
  from bitlen_bounds [OF assms] have lo: "2 ^ nat (bitlen a - 1) \<le> a" by simp
  have ge: "0 \<le> bitlen a - 1"
    using assms bitlen_eq_zero_iff [of a] bitlen_nonneg [of a] by linarith
  have "pow2 (bitlen a - 1) \<le> \<bar>of_int a :: rat\<bar>"
  proof -
    have "(2::rat) ^ nat (bitlen a - 1) = of_int (2 ^ nat (bitlen a - 1))" by simp
    also have "\<dots> \<le> of_int a" using lo by (simp only: of_int_le_iff)
    finally show ?thesis using ge assms by (simp add: pow2_def)
  qed
  then show ?thesis
    by (simp add: binade_def q b1)
qed

text \<open>The whole numbers from 1 to \<open>2 ^ 53\<close> are doubles: rounding leaves them as they are.\<close>

lemma js_round_int_pos:
  assumes "0 < a" "a \<le> 2 ^ 53"
  shows "js_round (of_int a) = Finite (of_int a)"
proof -
  define e where "e = bitlen a - 1"
  have e0: "0 \<le> e"
    using assms(1) bitlen_eq_zero_iff [of a] bitlen_nonneg [of a] by (simp add: e_def)
  from bitlen_bounds [OF assms(1)]
  have lo: "2 ^ nat e \<le> a" and hi: "a < 2 ^ nat (e + 1)" by (simp_all add: e_def)
  have e53: "e \<le> 53"
  proof (rule ccontr)
    assume "\<not> e \<le> 53"
    then have "54 \<le> nat e" by simp
    then have "(2::int) ^ 54 \<le> 2 ^ nat e" by (intro power_increasing) simp_all
    with lo assms(2) show False by simp
  qed
  have bin: "max (binade (of_int a)) (- 1022) = e"
    using e0 by (simp add: binade_int [OF assms(1)] e_def)
  have nz: "(of_int a :: rat) \<noteq> 0" using assms(1) by simp
  have small: "\<not> pow2 1024 \<le> \<bar>of_int a :: rat\<bar>"
  proof -
    have "(of_int a :: rat) \<le> of_int (2 ^ 53)" using assms(2) by (simp only: of_int_le_iff)
    also have "\<dots> < 2 ^ 1024" by simp
    finally show ?thesis using assms(1) by (simp add: pow2_def)
  qed
  have exact: "of_int (round_half_even (of_int a / pow2 (e - 52))) * pow2 (e - 52) = (of_int a :: rat)"
  proof (cases "e \<le> 52")
    case True
    then have u: "pow2 (e - 52) = 1 / 2 ^ nat (52 - e)"
      by (cases "e = 52") (simp_all add: pow2_def)
    have "of_int a / pow2 (e - 52) = (of_int (a * 2 ^ nat (52 - e)) :: rat)"
      by (simp add: u)
    then have "of_int (round_half_even (of_int a / pow2 (e - 52)))
               = (of_int (a * 2 ^ nat (52 - e)) :: rat)"
      by (simp only: round_half_even_int)
    then show ?thesis by (simp add: u)
  next
    case False
    with e53 have e: "e = 53" by simp
    with lo assms(2) have a: "a = 2 ^ 53" by simp
    have u: "pow2 (e - 52) = 2" by (simp add: e pow2_def)
    have "of_int a / (2::rat) = of_int (2 ^ 52)" by (simp add: a)
    then have "of_int (round_half_even (of_int a / 2)) = (of_int (2 ^ 52) :: rat)"
      by (simp only: round_half_even_int)
    then show ?thesis by (simp add: u a)
  qed
  show ?thesis
    unfolding js_round_def Let_def bin exact using nz small by simp
qed

lemma js_round_int_nonneg:
  assumes "0 \<le> a" "a \<le> 2 ^ 53"
  shows "js_round (of_int a) = Finite (of_int a)"
proof (cases "a = 0")
  case True
  then show ?thesis by (simp add: js_round_def)
next
  case False
  with assms(1) have "0 < a" by simp
  then show ?thesis using assms(2) by (rule js_round_int_pos)
qed

text \<open>
  Sums and differences of whole numbers that stay between 0 and \<open>2 ^ 53\<close> are exact; at
  \<open>2 ^ 53\<close> adding 1 changes nothing.
\<close>

lemma js_add_whole:
  assumes "0 \<le> a + b" "a + b \<le> 2 ^ 53"
  shows "js_add (Finite (of_int a)) (Finite (of_int b)) = Finite (of_int (a + b))"
  using js_round_int_nonneg [OF assms] by (simp add: js_add_def ToNumber_def)

lemma js_sub_whole:
  assumes "0 \<le> a - b" "a - b \<le> 2 ^ 53"
  shows "js_sub (Finite (of_int a)) (Finite (of_int b)) = Finite (of_int (a - b))"
  using js_round_int_nonneg [OF assms]
  by (simp add: js_sub_def js_negate_def js_add_def ToNumber_def)

lemma js_gt_whole: "js_gt (Finite (of_int a)) (Finite (of_int b)) \<longleftrightarrow> b < a"
  by (simp add: js_gt_def ToNumber_def)

lemma js_add_at_limit: "js_add (Finite (2 ^ 53)) (Finite 1) = Finite (2 ^ 53)"
  by code_simp

lemma whole_quantity_iff:
  "whole_quantity q \<longleftrightarrow> (\<exists>n. q = Finite (of_int n) \<and> 1 \<le> n \<and> n \<le> 2 ^ 53)"
proof
  assume "whole_quantity q"
  then obtain r where r: "q = Finite r" "r = of_int \<lfloor>r\<rfloor>" "1 \<le> r" "r \<le> 2 ^ 53"
    by (cases q) (auto simp: whole_quantity_def)
  have "1 \<le> \<lfloor>r\<rfloor>" using r(3) by simp
  moreover have "\<lfloor>r\<rfloor> \<le> 2 ^ 53"
  proof -
    have "r \<le> of_int (2 ^ 53)" using r(4) by simp
    then have "\<lfloor>r\<rfloor> \<le> \<lfloor>of_int (2 ^ 53) :: rat\<rfloor>" by (rule floor_mono)
    then show ?thesis by (simp only: floor_of_int)
  qed
  ultimately show "\<exists>n. q = Finite (of_int n) \<and> 1 \<le> n \<and> n \<le> 2 ^ 53"
    using r(1,2) by (intro exI [of _ "\<lfloor>r\<rfloor>"]) simp
next
  assume "\<exists>n. q = Finite (of_int n) \<and> 1 \<le> n \<and> n \<le> 2 ^ 53"
  then obtain n :: int where n: "q = Finite (of_int n)" "1 \<le> n" "n \<le> 2 ^ 53" by blast
  have "(of_int n :: rat) \<le> of_int (2 ^ 53)" using n(3) by (simp only: of_int_le_iff)
  then show "whole_quantity q"
    using n by (simp add: whole_quantity_def)
qed

section \<open>Properties of getStatusStyle\<close>

lemma getStatusStyle_Orders_default:
  "s \<notin> {''Completed'', ''Processing'', ''Ready'', ''AwaitingPickup'', ''In Progress'',
               ''Ready for Pickup''}
   \<Longrightarrow> getStatusStyle_Orders s = \<lparr>backgroundColor = ''#F3F4F6'', color = ''#6B7280''\<rparr>"
  by (simp add: getStatusStyle_Orders_def styles_Orders_def)

lemma getStatusStyle_Account_grey:
  "getStatusStyle_Account s = \<lparr>backgroundColor = ''#F3F4F6'', color = ''#6B7280''\<rparr>
   \<longleftrightarrow> toLowerCase s \<notin> {''completed'', ''processing'', ''ready'', ''awaitingpickup'',
                                  ''in progress'', ''ready for pickup'', ''cancelled''}"
  by (simp add: getStatusStyle_Account_def styles_Account_def Let_def)

lemma getStatusStyle_capitalised:
  "getStatusStyle_Account ''Completed'' = getStatusStyle_Orders ''Completed''"
  "getStatusStyle_Account ''Processing'' = getStatusStyle_Orders ''Processing''"
  "getStatusStyle_Account ''Ready'' = getStatusStyle_Orders ''Ready''"
  "getStatusStyle_Account ''AwaitingPickup'' = getStatusStyle_Orders ''AwaitingPickup''"
  "getStatusStyle_Account ''In Progress'' = getStatusStyle_Orders ''In Progress''"
  "getStatusStyle_Account ''Ready for Pickup'' = getStatusStyle_Orders ''Ready for Pickup''"
  by code_simp+

lemma toLowerCase_capitalised:
  "toLowerCase ''Completed'' = ''completed''"
  "toLowerCase ''Processing'' = ''processing''"
  "toLowerCase ''Ready'' = ''ready''"
  "toLowerCase ''AwaitingPickup'' = ''awaitingpickup''"
  "toLowerCase ''In Progress'' = ''in progress''"
  "toLowerCase ''Ready for Pickup'' = ''ready for pickup''"
  by code_simp+

text \<open>
  C4, as the claim states it, fails. Account lowers the case of the status before its
  switch and has five styles; Orders and OrderDetails compare the status as it is
  written and have four. A status \<^verbatim>\<open>Cancelled\<close> gets red text on a grey ground on
  Account and grey text on a grey ground on the other two screens; a status
  \<^verbatim>\<open>completed\<close> gets the green style on Account and, by the default branch, the grey
  one on the other two.
\<close>

theorem getStatusStyle_same_mapping_counterexample:
  "getStatusStyle_Account ''Cancelled'' = \<lparr>backgroundColor = ''#F3F4F6'', color = ''#dc2626''\<rparr>
   \<and> getStatusStyle_Orders ''Cancelled'' = \<lparr>backgroundColor = ''#F3F4F6'', color = ''#6B7280''\<rparr>
   \<and> getStatusStyle_OrderDetails ''Cancelled''
       = \<lparr>backgroundColor = ''#F3F4F6'', color = ''#6B7280''\<rparr>
   \<and> getStatusStyle_Account ''completed'' = \<lparr>backgroundColor = ''#16a34a'', color = ''#fff''\<rparr>
   \<and> getStatusStyle_Orders ''completed'' = \<lparr>backgroundColor = ''#F3F4F6'', color = ''#6B7280''\<rparr>
   \<and> getStatusStyle_OrderDetails ''completed''
       = \<lparr>backgroundColor = ''#F3F4F6'', color = ''#6B7280''\<rparr>
   \<and> getStatusStyle_Account ''Cancelled'' \<noteq> getStatusStyle_Orders ''Cancelled''
   \<and> getStatusStyle_Account ''completed'' \<noteq> getStatusStyle_OrderDetails ''completed''"
  by code_simp

text \<open>
  C4, amended: Orders and OrderDetails return the same style for every status, with the
  same case-sensitive comparison and the same default, the grey style (grey text
  \<^verbatim>\<open>#6B7280\<close> on \<^verbatim>\<open>#F3F4F6\<close>, which their sheets call \<^verbatim>\<open>cancelledStatus\<close> and the
  sheet of Account calls \<^verbatim>\<open>pendingStatus\<close>). Account's mapping is another one: it
  compares the status in lower case and has a style of its own for cancelled orders. It
  returns the style that the other two return exactly for the six spellings
  \<^verbatim>\<open>Completed\<close>, \<^verbatim>\<open>Processing\<close>, \<^verbatim>\<open>Ready\<close>, \<^verbatim>\<open>AwaitingPickup\<close>, \<^verbatim>\<open>In Progress\<close>,
  \<^verbatim>\<open>Ready for Pickup\<close>, and for the statuses that in lower case are none of
  \<^verbatim>\<open>completed\<close>, \<^verbatim>\<open>processing\<close>, \<^verbatim>\<open>ready\<close>, \<^verbatim>\<open>awaitingpickup\<close>, \<^verbatim>\<open>in progress\<close>,
  \<^verbatim>\<open>ready for pickup\<close>, \<^verbatim>\<open>cancelled\<close>: these, \<^verbatim>\<open>Pending\<close> among them, get the grey
  style on all three screens.
\<close>

theorem getStatusStyle_agreement:
  "getStatusStyle_Orders s = getStatusStyle_OrderDetails s
   \<and> (getStatusStyle_Account s = getStatusStyle_Orders s
        \<longleftrightarrow> s \<in> {''Completed'', ''Processing'', ''Ready'', ''AwaitingPickup'',
                       ''In Progress'', ''Ready for Pickup''}
            \<or> toLowerCase s \<notin> {''completed'', ''processing'', ''ready'',
                  ''awaitingpickup'', ''in progress'', ''ready for pickup'', ''cancelled''})
   \<and> (s \<notin> {''Completed'', ''Processing'', ''Ready'', ''AwaitingPickup'',
                   ''In Progress'', ''Ready for Pickup''}
        \<longrightarrow> getStatusStyle_Orders s
             = \<lparr>backgroundColor = ''#F3F4F6'', color = ''#6B7280''\<rparr>)
   \<and> (toLowerCase s \<notin> {''completed'', ''processing'', ''ready'', ''awaitingpickup'',
                               ''in progress'', ''ready for pickup'', ''cancelled''}
        \<longrightarrow> getStatusStyle_Account s
             = \<lparr>backgroundColor = ''#F3F4F6'', color = ''#6B7280''\<rparr>)"
proof (intro conjI impI)
  show "getStatusStyle_Orders s = getStatusStyle_OrderDetails s"
    by (simp only: getStatusStyle_Orders_def getStatusStyle_OrderDetails_def
          styles_Orders_def styles_OrderDetails_def)
next
  let ?six = "{''Completed'', ''Processing'', ''Ready'', ''AwaitingPickup'',
               ''In Progress'', ''Ready for Pickup''}"
  let ?seven = "{''completed'', ''processing'', ''ready'', ''awaitingpickup'',
                 ''in progress'', ''ready for pickup'', ''cancelled''}"
  show "getStatusStyle_Account s = getStatusStyle_Orders s
        \<longleftrightarrow> s \<in> ?six \<or> toLowerCase s \<notin> ?seven"
  proof (cases "s \<in> ?six")
    case True
    then have "getStatusStyle_Account s = getStatusStyle_Orders s"
      using getStatusStyle_capitalised by auto
    with True show ?thesis by simp
  next
    case False
    then have "getStatusStyle_Orders s
               = \<lparr>backgroundColor = ''#F3F4F6'', color = ''#6B7280''\<rparr>"
      by (rule getStatusStyle_Orders_default)
    with False show ?thesis
      by (simp only: getStatusStyle_Account_grey simp_thms)
  qed
next
  assume "s \<notin> {''Completed'', ''Processing'', ''Ready'', ''AwaitingPickup'',
                     ''In Progress'', ''Ready for Pickup''}"
  then show "getStatusStyle_Orders s
             = \<lparr>backgroundColor = ''#F3F4F6'', color = ''#6B7280''\<rparr>"
    by (rule getStatusStyle_Orders_default)
next
  assume "toLowerCase s \<notin> {''completed'', ''processing'', ''ready'', ''awaitingpickup'',
                               ''in progress'', ''ready for pickup'', ''cancelled''}"
  then show "getStatusStyle_Account s
             = \<lparr>backgroundColor = ''#F3F4F6'', color = ''#6B7280''\<rparr>"
    using getStatusStyle_Account_grey [of s] by blast
qed

theorem getStatusStyle_agreement_witness:
  "toLowerCase ''Pending'' = ''pending''
   \<and> getStatusStyle_Orders ''Pending'' = getStatusStyle_OrderDetails ''Pending''
   \<and> getStatusStyle_Account ''Pending'' = getStatusStyle_Orders ''Pending''
   \<and> getStatusStyle_Orders ''Pending'' = \<lparr>backgroundColor = ''#F3F4F6'', color = ''#6B7280''\<rparr>
   \<and> getStatusStyle_Account ''Pending'' = \<lparr>backgroundColor = ''#F3F4F6'', color = ''#6B7280''\<rparr>"
proof -
  have low: "toLowerCase ''Pending'' = ''pending''" by code_simp
  have six: "''Pending'' \<notin> {''Completed'', ''Processing'', ''Ready'', ''AwaitingPickup'',
                            ''In Progress'', ''Ready for Pickup''}"
    by simp
  have seven: "toLowerCase ''Pending'' \<notin> {''completed'', ''processing'', ''ready'',
                  ''awaitingpickup'', ''in progress'', ''ready for pickup'', ''cancelled''}"
    by (simp add: low)
  note agreement = getStatusStyle_agreement [of "''Pending''"]
  note same = agreement [THEN conjunct1]
  note account = agreement [THEN conjunct2, THEN conjunct1, THEN iffD2, OF disjI2, OF seven]
  note orders_grey = agreement [THEN conjunct2, THEN conjunct2, THEN conjunct1, THEN mp, OF six]
  note account_grey = agreement [THEN conjunct2, THEN conjunct2, THEN conjunct2, THEN mp, OF seven]
  show ?thesis
    by (intro conjI) (rule low same account orders_grey account_grey)+
qed

section \<open>Adding to the stored cart\<close>





lemma storage_after_Cons: "storage_after st (e # es) = storage_after (apply_effect st e) es"
  by (simp add: storage_after_def)

lemma storage_after_Nil: "storage_after st [] = st"
  by (simp add: storage_after_def)





section \<open>The quantity buttons of the Cart screen\<close>

lemma fst_persist: "fst (persist J newCart st) = newCart"
  by (simp add: persist_def Let_def split: option.split)

lemma fst_handleIncrement:
  "fst (handleIncrement J i cart st)
   = map (\<lambda>it. if item_id it = i then it\<lparr>quantity := js_add (quantity it) (Finite 1)\<rparr>
                else it) cart"
  by (simp add: handleIncrement_def fst_persist)

lemma fst_handleDecrement:
  "fst (handleDecrement J i cart st)
   = map (\<lambda>it. if item_id it = i \<and> js_gt (quantity it) (Finite 1)
                then it\<lparr>quantity := js_sub (quantity it) (Finite 1)\<rparr> else it) cart"
  by (simp add: handleDecrement_def fst_persist)

lemma fst_handleDelete:
  "fst (handleDelete J i cart st) = filter (\<lambda>it. item_id it \<noteq> i) cart"
proof -
  obtain c es where p: "persist J (filter (\<lambda>it. item_id it \<noteq> i) cart) st = (c, es)"
    by (cases "persist J (filter (\<lambda>it. item_id it \<noteq> i) cart) st")
  then have "c = filter (\<lambda>it. item_id it \<noteq> i) cart"
    using fst_persist [of J "filter (\<lambda>it. item_id it \<noteq> i) cart" st] by simp
  with p show ?thesis by (simp add: handleDelete_def Let_def)
qed

lemma whole_plus_one:
  assumes "1 \<le> n" "n \<le> 2 ^ 53"
  shows "js_add (Finite (of_int n)) (Finite 1)
         = Finite (of_int (if n < 2 ^ 53 then n + 1 else n))"
proof (cases "n < 2 ^ 53")
  case True
  then have "js_add (Finite (of_int n)) (Finite (of_int 1)) = Finite (of_int (n + 1))"
    using assms(1) by (intro js_add_whole) simp_all
  with True show ?thesis by simp
next
  case False
  with assms(2) have "n = 2 ^ 53" by simp
  then show ?thesis using js_add_at_limit by simp
qed

lemma whole_minus_one:
  assumes "1 \<le> n" "n \<le> 2 ^ 53"
  shows "js_sub (Finite (of_int n)) (Finite 1) = Finite (of_int (n - 1))"
proof -
  have "js_sub (Finite (of_int n)) (Finite (of_int 1)) = Finite (of_int (n - 1))"
    using assms by (intro js_sub_whole) simp_all
  then show ?thesis by simp
qed

lemma whole_greater_one: "js_gt (Finite (of_int n)) (Finite 1) \<longleftrightarrow> 1 < n"
  using js_gt_whole [of n 1] by simp

lemma whole_quantity_increment:
  assumes "whole_quantity q"
  shows "whole_quantity (js_add q (Finite 1))"
proof -
  from assms obtain n where n: "q = Finite (of_int n)" "1 \<le> n" "n \<le> 2 ^ 53"
    by (auto simp: whole_quantity_iff)
  have "js_add q (Finite 1) = Finite (of_int (if n < 2 ^ 53 then n + 1 else n))"
    unfolding n(1) using n(2,3) by (rule whole_plus_one)
  moreover have "1 \<le> (if n < 2 ^ 53 then n + 1 else n)"
    "(if n < 2 ^ 53 then n + 1 else n) \<le> 2 ^ 53"
    using n(2,3) by simp_all
  ultimately show ?thesis unfolding whole_quantity_iff by blast
qed

lemma whole_quantity_decrement:
  assumes "whole_quantity q" "js_gt q (Finite 1)"
  shows "whole_quantity (js_sub q (Finite 1))"
proof -
  from assms(1) obtain n where n: "q = Finite (of_int n)" "1 \<le> n" "n \<le> 2 ^ 53"
    by (auto simp: whole_quantity_iff)
  from assms(2) have "1 < n" by (simp add: n(1) whole_greater_one)
  moreover have "js_sub q (Finite 1) = Finite (of_int (n - 1))"
    unfolding n(1) using n(2,3) by (rule whole_minus_one)
  ultimately have "js_sub q (Finite 1) = Finite (of_int (n - 1)) \<and> 1 \<le> n - 1 \<and> n - 1 \<le> 2 ^ 53"
    using n(3) by simp
  then show ?thesis unfolding whole_quantity_iff by blast
qed

lemma whole_quantity_at_least_one:
  assumes "whole_quantity q"
  shows "q = Finite 1 \<or> js_gt q (Finite 1)"
proof -
  from assms obtain n where n: "q = Finite (of_int n)" "1 \<le> n"
    by (auto simp: whole_quantity_iff)
  show ?thesis
  proof (cases "n = 1")
    case True
    then show ?thesis by (simp add: n(1))
  next
    case False
    with n(2) have "1 < n" by simp
    then show ?thesis by (simp add: n(1) whole_greater_one)
  qed
qed

lemma whole_quantities_at_least_one:
  "whole_quantities cart \<Longrightarrow> quantities_at_least_one cart"
  by (simp add: whole_quantities_def quantities_at_least_one_def list_all_iff
        whole_quantity_at_least_one)

lemma cart_step_quantities:
  assumes "whole_quantities (fst state)"
  shows "whole_quantities (fst (cart_step J a state))"
proof -
  obtain cart st where state: "state = (cart, st)" by (cases state)
  have inv: "list_all (\<lambda>it. whole_quantity (quantity it)) cart"
    using assms state by (simp add: whole_quantities_def)
  show ?thesis
  proof (cases a)
    case (Increment i)
    have "fst (cart_step J a state) = fst (handleIncrement J i cart st)"
      by (simp add: state Increment split: prod.split)
    moreover have "list_all (\<lambda>it. whole_quantity (quantity it)) (fst (handleIncrement J i cart st))"
      using inv unfolding fst_handleIncrement
      by (induction cart) (auto simp: whole_quantity_increment)
    ultimately show ?thesis by (simp add: whole_quantities_def)
  next
    case (Decrement i)
    have "fst (cart_step J a state) = fst (handleDecrement J i cart st)"
      by (simp add: state Decrement split: prod.split)
    moreover have "list_all (\<lambda>it. whole_quantity (quantity it)) (fst (handleDecrement J i cart st))"
      using inv unfolding fst_handleDecrement
      by (induction cart) (auto simp: whole_quantity_decrement)
    ultimately show ?thesis by (simp add: whole_quantities_def)
  next
    case (Delete i)
    have "fst (cart_step J a state) = fst (handleDelete J i cart st)"
      by (simp add: state Delete split: prod.split)
    moreover have "list_all (\<lambda>it. whole_quantity (quantity it)) (fst (handleDelete J i cart st))"
      using inv unfolding fst_handleDelete by (induction cart) auto
    ultimately show ?thesis by (simp add: whole_quantities_def)
  next
    case Clear
    then show ?thesis by (simp add: state handleClearCart_def whole_quantities_def)
  qed
qed

lemma cart_run_quantities:
  "whole_quantities (fst state) \<Longrightarrow> whole_quantities (fst (cart_run J acts state))"
  unfolding cart_run_def
  by (induction acts arbitrary: state) (simp_all add: cart_step_quantities)

text \<open>
  C8, as the claim states it, fails: a quantity is a JavaScript number, and a cart whose
  quantities are all at least 1 may hold one that is not whole. From the quantity 1.5,
  which is greater than 1, handleDecrement goes to 0.5. And at the quantity
  \<open>2 ^ 53\<close> = 9007199254740992 handleIncrement increases nothing, because
  \<^verbatim>\<open>quantity + 1\<close> is \<open>2 ^ 53\<close> again.
\<close>

theorem cart_handlers_keep_quantities_counterexample:
  "quantities_at_least_one
     [\<lparr>item_id = ''p1'', item_name = ''Milk'', quantity = Finite (3 / 2), item_other = ()\<rparr>]
   \<and> fst (handleDecrement sample_json ''p1''
            [\<lparr>item_id = ''p1'', item_name = ''Milk'', quantity = Finite (3 / 2),
              item_other = ()\<rparr>] Map.empty)
      = [\<lparr>item_id = ''p1'', item_name = ''Milk'', quantity = Finite (1 / 2), item_other = ()\<rparr>]
   \<and> \<not> quantities_at_least_one
         (fst (handleDecrement sample_json ''p1''
                 [\<lparr>item_id = ''p1'', item_name = ''Milk'', quantity = Finite (3 / 2),
                   item_other = ()\<rparr>] Map.empty))
   \<and> fst (handleIncrement sample_json ''p1''
            [\<lparr>item_id = ''p1'', item_name = ''Milk'', quantity = Finite (2 ^ 53),
              item_other = ()\<rparr>] Map.empty)
      = [\<lparr>item_id = ''p1'', item_name = ''Milk'', quantity = Finite (2 ^ 53), item_other = ()\<rparr>]"
proof -
  have gt: "js_gt (Finite (3 / 2)) (Finite 1)" "\<not> js_gt (Finite (1 / 2)) (Finite 1)"
    by (simp_all add: js_gt_def ToNumber_def)
  have sub: "js_sub (Finite (3 / 2)) (Finite 1) = Finite (1 / 2)"
    by code_simp
  have add: "js_add (Finite 9007199254740992) (Finite 1) = Finite 9007199254740992"
    using js_add_at_limit by simp
  show ?thesis
    by (simp add: fst_handleDecrement fst_handleIncrement quantities_at_least_one_def gt sub add)
qed

text \<open>
  C8, amended: handleIncrement gives the line items with the given id the quantity
  \<^verbatim>\<open>quantity + 1\<close> and leaves the others as they are; handleDecrement gives them the
  quantity \<^verbatim>\<open>quantity - 1\<close> only where \<^verbatim>\<open>quantity > 1\<close>, so a line item at quantity 1
  stays as it is and no line item is removed; handleDelete keeps exactly the line items
  with another id, in their order. On a whole quantity \<open>n\<close> from 1 to \<open>2 ^ 53\<close> the
  increment gives \<open>n + 1\<close> (and \<open>n\<close> itself at \<open>2 ^ 53\<close>) and the decrement gives \<open>n - 1\<close>
  where \<open>1 < n\<close>. From a cart whose quantities are all whole numbers from 1 to \<open>2 ^ 53\<close>,
  each handler, and every run of the quantity, delete and Clear buttons, ends in a cart
  whose quantities are whole numbers from 1 to \<open>2 ^ 53\<close>, so all at least 1.
\<close>

theorem cart_handlers_keep_quantities:
  "length (fst (handleIncrement J i cart st)) = length cart
   \<and> (\<forall>k<length cart. fst (handleIncrement J i cart st) ! k =
         (if item_id (cart ! k) = i
          then (cart ! k)\<lparr>quantity := js_add (quantity (cart ! k)) (Finite 1)\<rparr>
          else cart ! k))
   \<and> length (fst (handleDecrement J i cart st)) = length cart
   \<and> (\<forall>k<length cart. fst (handleDecrement J i cart st) ! k =
         (if item_id (cart ! k) = i \<and> js_gt (quantity (cart ! k)) (Finite 1)
          then (cart ! k)\<lparr>quantity := js_sub (quantity (cart ! k)) (Finite 1)\<rparr>
          else cart ! k))
   \<and> fst (handleDelete J i cart st) = filter (\<lambda>it. item_id it \<noteq> i) cart
   \<and> (1 \<le> n \<and> n \<le> 2 ^ 53
        \<longrightarrow> js_add (Finite (of_int n)) (Finite 1)
              = Finite (of_int (if n < 2 ^ 53 then n + 1 else n))
          \<and> js_gt (Finite (of_int n)) (Finite 1) = (1 < n)
          \<and> js_sub (Finite (of_int n)) (Finite 1) = Finite (of_int (n - 1)))
   \<and> (whole_quantities cart
        \<longrightarrow> whole_quantities (fst (handleIncrement J i cart st))
          \<and> whole_quantities (fst (handleDecrement J i cart st))
          \<and> whole_quantities (fst (handleDelete J i cart st))
          \<and> whole_quantities (fst (cart_run J acts (cart, st)))
          \<and> quantities_at_least_one (fst (cart_run J acts (cart, st))))"
proof (intro conjI impI allI)
  show "length (fst (handleIncrement J i cart st)) = length cart"
    by (simp add: fst_handleIncrement)
  show "length (fst (handleDecrement J i cart st)) = length cart"
    by (simp add: fst_handleDecrement)
  show "fst (handleDelete J i cart st) = filter (\<lambda>it. item_id it \<noteq> i) cart"
    by (rule fst_handleDelete)
next
  fix k assume "k < length cart"
  then show "fst (handleIncrement J i cart st) ! k =
         (if item_id (cart ! k) = i
          then (cart ! k)\<lparr>quantity := js_add (quantity (cart ! k)) (Finite 1)\<rparr>
          else cart ! k)"
    by (simp add: fst_handleIncrement)
next
  fix k assume "k < length cart"
  then show "fst (handleDecrement J i cart st) ! k =
         (if item_id (cart ! k) = i \<and> js_gt (quantity (cart ! k)) (Finite 1)
          then (cart ! k)\<lparr>quantity := js_sub (quantity (cart ! k)) (Finite 1)\<rparr>
          else cart ! k)"
    by (simp add: fst_handleDecrement)
next
  assume n: "1 \<le> n \<and> n \<le> 2 ^ 53"
  then show "js_add (Finite (of_int n)) (Finite 1)
             = Finite (of_int (if n < 2 ^ 53 then n + 1 else n))"
    by (intro whole_plus_one) simp_all
  show "js_gt (Finite (of_int n)) (Finite 1) = (1 < n)"
    by (rule whole_greater_one)
  from n show "js_sub (Finite (of_int n)) (Finite 1) = Finite (of_int (n - 1))"
    by (intro whole_minus_one) simp_all
next
  assume ok: "whole_quantities cart"
  then have start: "whole_quantities (fst (cart, st))" by simp
  show "whole_quantities (fst (handleIncrement J i cart st))"
    using cart_step_quantities [OF start, of J "Increment i"] by (simp split: prod.splits)
  show "whole_quantities (fst (handleDecrement J i cart st))"
    using cart_step_quantities [OF start, of J "Decrement i"] by (simp split: prod.splits)
  show "whole_quantities (fst (handleDelete J i cart st))"
    using cart_step_quantities [OF start, of J "Delete i"] by (simp split: prod.splits)
  show "whole_quantities (fst (cart_run J acts (cart, st)))"
    by (rule cart_run_quantities [OF start])
  then show "quantities_at_least_one (fst (cart_run J acts (cart, st)))"
    by (rule whole_quantities_at_least_one)
qed

theorem cart_handlers_keep_quantities_witness:
  "whole_quantities
     [\<lparr>item_id = ''p1'', item_name = ''Milk'', quantity = Finite 1, item_other = ()\<rparr>,
      \<lparr>item_id = ''p2'', item_name = ''Bread'', quantity = Finite 1, item_other = ()\<rparr>]
   \<and> fst (handleDecrement sample_json ''p1''
       [\<lparr>item_id = ''p1'', item_name = ''Milk'', quantity = Finite 1, item_other = ()\<rparr>,
        \<lparr>item_id = ''p2'', item_name = ''Bread'', quantity = Finite 1, item_other = ()\<rparr>]
       Map.empty)
      = [\<lparr>item_id = ''p1'', item_name = ''Milk'', quantity = Finite 1, item_other = ()\<rparr>,
         \<lparr>item_id = ''p2'', item_name = ''Bread'', quantity = Finite 1, item_other = ()\<rparr>]
   \<and> fst (handleIncrement sample_json ''p1''
       [\<lparr>item_id = ''p1'', item_name = ''Milk'', quantity = Finite 1, item_other = ()\<rparr>,
        \<lparr>item_id = ''p2'', item_name = ''Bread'', quantity = Finite 1, item_other = ()\<rparr>]
       Map.empty)
      = [\<lparr>item_id = ''p1'', item_name = ''Milk'', quantity = Finite 2, item_other = ()\<rparr>,
         \<lparr>item_id = ''p2'', item_name = ''Bread'', quantity = Finite 1, item_other = ()\<rparr>]
   \<and> fst (handleDelete sample_json ''p1''
       [\<lparr>item_id = ''p1'', item_name = ''Milk'', quantity = Finite 1, item_other = ()\<rparr>,
        \<lparr>item_id = ''p2'', item_name = ''Bread'', quantity = Finite 1, item_other = ()\<rparr>]
       Map.empty)
      = [\<lparr>item_id = ''p2'', item_name = ''Bread'', quantity = Finite 1, item_other = ()\<rparr>]
   \<and> fst (cart_run sample_json
            [Decrement ''p1'', Increment ''p1'', Increment ''p2'', Decrement ''p2'', Delete ''p2'']
            ([\<lparr>item_id = ''p1'', item_name = ''Milk'', quantity = Finite 1, item_other = ()\<rparr>,
              \<lparr>item_id = ''p2'', item_name = ''Bread'', quantity = Finite 1, item_other = ()\<rparr>],
             Map.empty))
      = [\<lparr>item_id = ''p1'', item_name = ''Milk'', quantity = Finite 2, item_other = ()\<rparr>]
   \<and> quantities_at_least_one
       (fst (cart_run sample_json
              [Decrement ''p1'', Increment ''p1'', Increment ''p2'', Decrement ''p2'',
               Delete ''p2'']
              ([\<lparr>item_id = ''p1'', item_name = ''Milk'', quantity = Finite 1, item_other = ()\<rparr>,
                \<lparr>item_id = ''p2'', item_name = ''Bread'', quantity = Finite 1, item_other = ()\<rparr>],
               Map.empty)))"
proof -
  let ?cart = "[\<lparr>item_id = ''p1'', item_name = ''Milk'', quantity = Finite 1, item_other = ()\<rparr>,
                \<lparr>item_id = ''p2'', item_name = ''Bread'', quantity = Finite 1, item_other = ()\<rparr>]"
  let ?acts = "[Decrement ''p1'', Increment ''p1'', Increment ''p2'', Decrement ''p2'',
                Delete ''p2'']"
  note claim = cart_handlers_keep_quantities
                 [where J = sample_json and i = "''p1''" and cart = ?cart and st = Map.empty
                    and acts = ?acts and n = 1]
  have ok: "whole_quantities ?cart"
    by (simp add: whole_quantities_def whole_quantity_def)
  have inv: "quantities_at_least_one (fst (cart_run sample_json ?acts (?cart, Map.empty)))"
    using claim ok by blast
  have add1: "js_add (Finite 1) (Finite 1) = Finite 2"
    using claim by simp
  have gt: "\<not> js_gt (Finite 1) (Finite 1)" "js_gt (Finite 2) (Finite 1)"
    by (simp_all add: js_gt_def ToNumber_def)
  have sub: "js_sub (Finite 2) (Finite 1) = Finite 1"
    using whole_minus_one [of 2] by simp
  have dec: "fst (handleDecrement sample_json ''p1'' ?cart Map.empty) = ?cart"
    by (simp add: fst_handleDecrement gt)
  have inc: "fst (handleIncrement sample_json ''p1'' ?cart Map.empty)
      = [\<lparr>item_id = ''p1'', item_name = ''Milk'', quantity = Finite 2, item_other = ()\<rparr>,
         \<lparr>item_id = ''p2'', item_name = ''Bread'', quantity = Finite 1, item_other = ()\<rparr>]"
    by (simp add: fst_handleIncrement add1)
  have del: "fst (handleDelete sample_json ''p1'' ?cart Map.empty)
      = [\<lparr>item_id = ''p2'', item_name = ''Bread'', quantity = Finite 1, item_other = ()\<rparr>]"
    by (simp add: fst_handleDelete)
  have run: "fst (cart_run sample_json ?acts (?cart, Map.empty))
      = [\<lparr>item_id = ''p1'', item_name = ''Milk'', quantity = Finite 2, item_other = ()\<rparr>]"
    by (simp add: cart_run_def split_beta fst_handleDecrement fst_handleIncrement
          fst_handleDelete add1 gt sub)
  from ok inv dec inc del run show ?thesis by simp
qed

section \<open>Reserving a pickup slot\<close>




section \<open>Placing an order\<close>

lemma select_id_in_missing:
  assumes "distinct table" "m \<in> set cartIds" "m \<notin> set table"
  shows "length (select_id_in table cartIds) < length cartIds"
proof -
  have "distinct (select_id_in table cartIds)"
    using assms(1) by (simp add: select_id_in_def)
  then have "length (select_id_in table cartIds) = card (set (select_id_in table cartIds))"
    by (simp add: distinct_card)
  also have "set (select_id_in table cartIds) \<subseteq> set cartIds - {m}"
    using assms(3) by (auto simp: select_id_in_def)
  then have "card (set (select_id_in table cartIds)) \<le> card (set cartIds - {m})"
    by (intro card_mono) auto
  also have "\<dots> < card (set cartIds)"
    using assms(2) by (intro card_Diff1_less) auto
  also have "\<dots> \<le> length cartIds" by (rule card_length)
  finally show ?thesis .
qed

lemma placeOrder_after_insert:
  assumes pay: "truthy selectedPaymentId"
    and loc: "currentLocId J st = Some locationId"
    and user: "auth_user env = Some uid"
    and inserted: "orders_insert env = Data (orderId # others)"
  shows "placeOrder J cart selectedPaymentId pickupTime env st =
      (if (case products_select env of None \<Rightarrow> 0 | Some v \<Rightarrow> length v) \<noteq> length cart
       then (cart,
             [Remote Auth_getUser,
              Remote (Orders_insert
                \<lparr>user_id = uid, location_id = locationId, status = ''Pending'',
                 barcode = uuid_v4 env, payment_id = the selectedPaymentId,
                 created_at = now_iso env, pickup_time = pickupTime\<rparr>),
              Remote (Products_select_in (map item_id cart)),
              Toast_show Error ''Some items are no longer available.''])
       else if order_items_insert_error env
       then (cart,
             [Remote Auth_getUser,
              Remote (Orders_insert
                \<lparr>user_id = uid, location_id = locationId, status = ''Pending'',
                 barcode = uuid_v4 env, payment_id = the selectedPaymentId,
                 created_at = now_iso env, pickup_time = pickupTime\<rparr>),
              Remote (Products_select_in (map item_id cart)),
              Remote (Order_items_insert
                (map (\<lambda>i. \<lparr>order_id = orderId, product_id = item_id i,
                             ordered_quantity = quantity i\<rparr>) cart)),
              Toast_show Error ''Failed to insert items.''])
       else ([],
             [Remote Auth_getUser,
              Remote (Orders_insert
                \<lparr>user_id = uid, location_id = locationId, status = ''Pending'',
                 barcode = uuid_v4 env, payment_id = the selectedPaymentId,
                 created_at = now_iso env, pickup_time = pickupTime\<rparr>),
              Remote (Products_select_in (map item_id cart)),
              Remote (Order_items_insert
                (map (\<lambda>i. \<lparr>order_id = orderId, product_id = item_id i,
                             ordered_quantity = quantity i\<rparr>) cart)),
              Remove_item ''cart'', Remove_item ''cartLocationId'',
              Toast_show Success ''Order placed successfully!'',
              Navigate ''OrderDetails'']))"
  using pay loc user inserted by (simp add: placeOrder_def Let_def)

text \<open>
  C3: let the payment method be selected, the user signed in, and the insert into
  \<^verbatim>\<open>orders\<close> have succeeded. Where the products table lacks the id of some line item
  of the cart, the availability check of placeOrder fails (the query returns fewer ids
  than the cart has line items); where that check fails, placeOrder has sent the user
  lookup, the one insert into \<^verbatim>\<open>orders\<close> and the query on \<^verbatim>\<open>products\<close>, shows the one
  error toast and ends: it sends no insert into \<^verbatim>\<open>order_items\<close> and no other call.
  Where the check passes and the insert into \<^verbatim>\<open>order_items\<close> answers with an error,
  placeOrder has sent these three calls and that insert, shows the one error toast and
  ends. In both cases no call deletes or updates the order row and none repeats the
  insert, the toast is the only notification, no key of the local storage is written,
  so the stored cart is as before, and the in-memory cart is unchanged.
\<close>

theorem placeOrder_no_compensation:
  assumes pay: "truthy selectedPaymentId"
    and loc: "currentLocId J st = Some locationId"
    and user: "auth_user env = Some uid"
    and inserted: "orders_insert env = Data (orderId # others)"
  shows
    "((\<exists>table. distinct table
          \<and> products_select env = Some (select_id_in table (map item_id cart))
          \<and> (\<exists>i \<in> set cart. item_id i \<notin> set table))
        \<longrightarrow> (case products_select env of None \<Rightarrow> 0 | Some v \<Rightarrow> length v) \<noteq> length cart)
     \<and> ((case products_select env of None \<Rightarrow> 0 | Some v \<Rightarrow> length v) \<noteq> length cart
        \<longrightarrow> placeOrder J cart selectedPaymentId pickupTime env st
            = (cart,
               [Remote Auth_getUser,
                Remote (Orders_insert
                  \<lparr>user_id = uid, location_id = locationId, status = ''Pending'',
                   barcode = uuid_v4 env, payment_id = the selectedPaymentId,
                   created_at = now_iso env, pickup_time = pickupTime\<rparr>),
                Remote (Products_select_in (map item_id cart)),
                Toast_show Error ''Some items are no longer available.'']))
     \<and> ((case products_select env of None \<Rightarrow> 0 | Some v \<Rightarrow> length v) = length cart
          \<and> order_items_insert_error env
        \<longrightarrow> placeOrder J cart selectedPaymentId pickupTime env st
            = (cart,
               [Remote Auth_getUser,
                Remote (Orders_insert
                  \<lparr>user_id = uid, location_id = locationId, status = ''Pending'',
                   barcode = uuid_v4 env, payment_id = the selectedPaymentId,
                   created_at = now_iso env, pickup_time = pickupTime\<rparr>),
                Remote (Products_select_in (map item_id cart)),
                Remote (Order_items_insert
                  (map (\<lambda>i. \<lparr>order_id = orderId, product_id = item_id i,
                               ordered_quantity = quantity i\<rparr>) cart)),
                Toast_show Error ''Failed to insert items.'']))
     \<and> ((case products_select env of None \<Rightarrow> 0 | Some v \<Rightarrow> length v) \<noteq> length cart
          \<or> order_items_insert_error env
        \<longrightarrow> fst (placeOrder J cart selectedPaymentId pickupTime env st) = cart
          \<and> length (filter is_error_notice
                (snd (placeOrder J cart selectedPaymentId pickupTime env st))) = 1
          \<and> length (filter (\<lambda>e. case e of Toast_show t m \<Rightarrow> True
                                 | Alert_alert t m \<Rightarrow> True | _ \<Rightarrow> False)
                (snd (placeOrder J cart selectedPaymentId pickupTime env st))) = 1
          \<and> is_error_notice (last (snd (placeOrder J cart selectedPaymentId pickupTime env st)))
          \<and> filter (\<lambda>c. case c of Orders_insert r \<Rightarrow> True
                           | Orders_update_status i v \<Rightarrow> True
                           | Orders_delete i \<Rightarrow> True
                           | _ \<Rightarrow> False)
                (remote_calls (snd (placeOrder J cart selectedPaymentId pickupTime env st)))
             = [Orders_insert
                  \<lparr>user_id = uid, location_id = locationId, status = ''Pending'',
                   barcode = uuid_v4 env, payment_id = the selectedPaymentId,
                   created_at = now_iso env, pickup_time = pickupTime\<rparr>]
          \<and> keys_written (snd (placeOrder J cart selectedPaymentId pickupTime env st)) = {}
          \<and> storage_after st (snd (placeOrder J cart selectedPaymentId pickupTime env st))
             = st)"
    (is "?missing \<and> ?unavailable \<and> ?failed \<and> ?either")
proof -
  note run = placeOrder_after_insert [OF pay loc user inserted, of cart pickupTime]
  have missing: ?missing
  proof
    assume "\<exists>table. distinct table
          \<and> products_select env = Some (select_id_in table (map item_id cart))
          \<and> (\<exists>i \<in> set cart. item_id i \<notin> set table)"
    then obtain table i where t: "distinct table"
        "products_select env = Some (select_id_in table (map item_id cart))"
        "i \<in> set cart" "item_id i \<notin> set table"
      by blast
    have "length (select_id_in table (map item_id cart)) < length (map item_id cart)"
      by (rule select_id_in_missing [OF t(1), of "item_id i"]) (use t in auto)
    then show "(case products_select env of None \<Rightarrow> 0 | Some v \<Rightarrow> length v) \<noteq> length cart"
      by (simp add: t(2))
  qed
  have unavailable: ?unavailable
    by (rule impI) (simp add: run)
  have failed: ?failed
    by (rule impI) (simp add: run)
  have either: ?either
  proof
    assume "(case products_select env of None \<Rightarrow> 0 | Some v \<Rightarrow> length v) \<noteq> length cart
            \<or> order_items_insert_error env"
    then consider
        (a) "(case products_select env of None \<Rightarrow> 0 | Some v \<Rightarrow> length v) \<noteq> length cart"
      | (b) "(case products_select env of None \<Rightarrow> 0 | Some v \<Rightarrow> length v) = length cart"
            "order_items_insert_error env"
      by blast
    then show "fst (placeOrder J cart selectedPaymentId pickupTime env st) = cart
          \<and> length (filter is_error_notice
                (snd (placeOrder J cart selectedPaymentId pickupTime env st))) = 1
          \<and> length (filter (\<lambda>e. case e of Toast_show t m \<Rightarrow> True
                                 | Alert_alert t m \<Rightarrow> True | _ \<Rightarrow> False)
                (snd (placeOrder J cart selectedPaymentId pickupTime env st))) = 1
          \<and> is_error_notice (last (snd (placeOrder J cart selectedPaymentId pickupTime env st)))
          \<and> filter (\<lambda>c. case c of Orders_insert r \<Rightarrow> True
                           | Orders_update_status i v \<Rightarrow> True
                           | Orders_delete i \<Rightarrow> True
                           | _ \<Rightarrow> False)
                (remote_calls (snd (placeOrder J cart selectedPaymentId pickupTime env st)))
             = [Orders_insert
                  \<lparr>user_id = uid, location_id = locationId, status = ''Pending'',
                   barcode = uuid_v4 env, payment_id = the selectedPaymentId,
                   created_at = now_iso env, pickup_time = pickupTime\<rparr>]
          \<and> keys_written (snd (placeOrder J cart selectedPaymentId pickupTime env st)) = {}
          \<and> storage_after st (snd (placeOrder J cart selectedPaymentId pickupTime env st))
             = st"
    proof cases
      case a
      then show ?thesis
        by (simp add: run remote_calls_def keys_written_def storage_after_def)
    next
      case b
      then show ?thesis
        by (simp add: run remote_calls_def keys_written_def storage_after_def)
    qed
  qed
  show ?thesis
    by (intro conjI) (rule missing unavailable failed either)+
qed

lemma placeOrder_clears_cart_only_on_success:
  "Remove_item ''cart'' \<in> set (snd (placeOrder J cart selectedPaymentId pickupTime env st))
   \<longleftrightarrow> truthy selectedPaymentId \<and> currentLocId J st \<noteq> None \<and> auth_user env \<noteq> None
       \<and> (\<exists>orderId others. orders_insert env = Data (orderId # others))
       \<and> (case products_select env of None \<Rightarrow> 0 | Some v \<Rightarrow> length v) = length cart
       \<and> \<not> order_items_insert_error env"
  by (auto simp: placeOrder_def Let_def split: option.splits response.splits list.splits)

theorem placeOrder_no_compensation_witness:
  "truthy (Some ''pay-1'')
   \<and> currentLocId sample_json [''selectedLocation'' \<mapsto> ''{id:loc-1,name:Main Street}'']
       = Some (Some ''loc-1'')
   \<and> distinct [''p1'', ''p7'']
   \<and> select_id_in [''p1'', ''p7''] [''p1'', ''p2''] = [''p1'']
   \<and> placeOrder sample_json
        [\<lparr>item_id = ''p1'', item_name = ''Milk'', quantity = Finite 2, item_other = ()\<rparr>,
         \<lparr>item_id = ''p2'', item_name = ''Bread'', quantity = Finite 1, item_other = ()\<rparr>]
        (Some ''pay-1'') ''2026-01-01T09:00:00.000Z''
        \<lparr>auth_user = Some ''u1'', uuid_v4 = ''b-1'', now_iso = ''2026-01-01T08:00:00.000Z'',
         orders_insert = Data [''o1''], products_select = Some [''p1''],
         order_items_insert_error = False\<rparr>
        [''selectedLocation'' \<mapsto> ''{id:loc-1,name:Main Street}'']
      = ([\<lparr>item_id = ''p1'', item_name = ''Milk'', quantity = Finite 2, item_other = ()\<rparr>,
          \<lparr>item_id = ''p2'', item_name = ''Bread'', quantity = Finite 1, item_other = ()\<rparr>],
         [Remote Auth_getUser,
          Remote (Orders_insert
            \<lparr>user_id = ''u1'', location_id = Some ''loc-1'', status = ''Pending'',
             barcode = ''b-1'', payment_id = ''pay-1'',
             created_at = ''2026-01-01T08:00:00.000Z'',
             pickup_time = ''2026-01-01T09:00:00.000Z''\<rparr>),
          Remote (Products_select_in [''p1'', ''p2'']),
          Toast_show Error ''Some items are no longer available.''])
   \<and> placeOrder sample_json
        [\<lparr>item_id = ''p1'', item_name = ''Milk'', quantity = Finite 2, item_other = ()\<rparr>,
         \<lparr>item_id = ''p2'', item_name = ''Bread'', quantity = Finite 1, item_other = ()\<rparr>]
        (Some ''pay-1'') ''2026-01-01T09:00:00.000Z''
        \<lparr>auth_user = Some ''u1'', uuid_v4 = ''b-1'', now_iso = ''2026-01-01T08:00:00.000Z'',
         orders_insert = Data [''o1''], products_select = Some [''p1'', ''p2''],
         order_items_insert_error = True\<rparr>
        [''selectedLocation'' \<mapsto> ''{id:loc-1,name:Main Street}'']
      = ([\<lparr>item_id = ''p1'', item_name = ''Milk'', quantity = Finite 2, item_other = ()\<rparr>,
          \<lparr>item_id = ''p2'', item_name = ''Bread'', quantity = Finite 1, item_other = ()\<rparr>],
         [Remote Auth_getUser,
          Remote (Orders_insert
            \<lparr>user_id = ''u1'', location_id = Some ''loc-1'', status = ''Pending'',
             barcode = ''b-1'', payment_id = ''pay-1'',
             created_at = ''2026-01-01T08:00:00.000Z'',
             pickup_time = ''2026-01-01T09:00:00.000Z''\<rparr>),
          Remote (Products_select_in [''p1'', ''p2'']),
          Remote (Order_items_insert
            [\<lparr>order_id = ''o1'', product_id = ''p1'', ordered_quantity = Finite 2\<rparr>,
             \<lparr>order_id = ''o1'', product_id = ''p2'', ordered_quantity = Finite 1\<rparr>]),
          Toast_show Error ''Failed to insert items.''])
   \<and> storage_after [''selectedLocation'' \<mapsto> ''{id:loc-1,name:Main Street}'']
        (snd (placeOrder sample_json
           [\<lparr>item_id = ''p1'', item_name = ''Milk'', quantity = Finite 2, item_other = ()\<rparr>,
            \<lparr>item_id = ''p2'', item_name = ''Bread'', quantity = Finite 1, item_other = ()\<rparr>]
           (Some ''pay-1'') ''2026-01-01T09:00:00.000Z''
           \<lparr>auth_user = Some ''u1'', uuid_v4 = ''b-1'', now_iso = ''2026-01-01T08:00:00.000Z'',
            orders_insert = Data [''o1''], products_select = Some [''p1''],
            order_items_insert_error = False\<rparr>
           [''selectedLocation'' \<mapsto> ''{id:loc-1,name:Main Street}'']))
      = [''selectedLocation'' \<mapsto> ''{id:loc-1,name:Main Street}'']"
proof -
  let ?st = "[''selectedLocation'' \<mapsto> ''{id:loc-1,name:Main Street}'']"
  let ?cart = "[\<lparr>item_id = ''p1'', item_name = ''Milk'', quantity = Finite 2, item_other = ()\<rparr>,
                \<lparr>item_id = ''p2'', item_name = ''Bread'', quantity = Finite 1, item_other = ()\<rparr>]"
  let ?envA = "\<lparr>auth_user = Some ''u1'', uuid_v4 = ''b-1'', now_iso = ''2026-01-01T08:00:00.000Z'',
            orders_insert = Data [''o1''], products_select = Some [''p1''],
            order_items_insert_error = False\<rparr>"
  let ?envB = "\<lparr>auth_user = Some ''u1'', uuid_v4 = ''b-1'', now_iso = ''2026-01-01T08:00:00.000Z'',
            orders_insert = Data [''o1''], products_select = Some [''p1'', ''p2''],
            order_items_insert_error = True\<rparr>"
  have pay: "truthy (Some ''pay-1'')" by (simp add: truthy_def)
  have loc: "currentLocId sample_json ?st = Some (Some ''loc-1'')"
    by (simp add: currentLocId_def truthy_def sample_json_def)
  have dist: "distinct [''p1'', ''p7'']" by simp
  have sel: "select_id_in [''p1'', ''p7''] [''p1'', ''p2''] = [''p1'']"
    by (simp add: select_id_in_def)
  have userA: "auth_user ?envA = Some ''u1''" and insA: "orders_insert ?envA = Data (''o1'' # [])"
    by simp_all
  have userB: "auth_user ?envB = Some ''u1''" and insB: "orders_insert ?envB = Data (''o1'' # [])"
    by simp_all
  note claimA = placeOrder_no_compensation
         [where J = sample_json and st = ?st and cart = ?cart and env = ?envA
            and selectedPaymentId = "Some ''pay-1''" and pickupTime = "''2026-01-01T09:00:00.000Z''",
          OF pay loc userA insA]
  note claimB = placeOrder_no_compensation
         [where J = sample_json and st = ?st and cart = ?cart and env = ?envB
            and selectedPaymentId = "Some ''pay-1''" and pickupTime = "''2026-01-01T09:00:00.000Z''",
          OF pay loc userB insB]
  have missing: "\<exists>table. distinct table
        \<and> products_select ?envA = Some (select_id_in table (map item_id ?cart))
        \<and> (\<exists>i \<in> set ?cart. item_id i \<notin> set table)"
    by (rule exI [of _ "[''p1'', ''p7'']"]) (simp add: select_id_in_def)
  have unavailable:
    "(case products_select ?envA of None \<Rightarrow> 0 | Some v \<Rightarrow> length v) \<noteq> length ?cart"
    using claimA [THEN conjunct1] missing by (rule mp)
  have failed:
    "(case products_select ?envB of None \<Rightarrow> 0 | Some v \<Rightarrow> length v) = length ?cart
     \<and> order_items_insert_error ?envB"
    by simp
  have runA: "placeOrder sample_json ?cart (Some ''pay-1'') ''2026-01-01T09:00:00.000Z'' ?envA ?st
      = (?cart,
         [Remote Auth_getUser,
          Remote (Orders_insert
            \<lparr>user_id = ''u1'', location_id = Some ''loc-1'', status = ''Pending'',
             barcode = ''b-1'', payment_id = ''pay-1'',
             created_at = ''2026-01-01T08:00:00.000Z'',
             pickup_time = ''2026-01-01T09:00:00.000Z''\<rparr>),
          Remote (Products_select_in [''p1'', ''p2'']),
          Toast_show Error ''Some items are no longer available.''])"
    using claimA [THEN conjunct2, THEN conjunct1, THEN mp, OF unavailable] by simp
  have runB: "placeOrder sample_json ?cart (Some ''pay-1'') ''2026-01-01T09:00:00.000Z'' ?envB ?st
      = (?cart,
         [Remote Auth_getUser,
          Remote (Orders_insert
            \<lparr>user_id = ''u1'', location_id = Some ''loc-1'', status = ''Pending'',
             barcode = ''b-1'', payment_id = ''pay-1'',
             created_at = ''2026-01-01T08:00:00.000Z'',
             pickup_time = ''2026-01-01T09:00:00.000Z''\<rparr>),
          Remote (Products_select_in [''p1'', ''p2'']),
          Remote (Order_items_insert
            [\<lparr>order_id = ''o1'', product_id = ''p1'', ordered_quantity = Finite 2\<rparr>,
             \<lparr>order_id = ''o1'', product_id = ''p2'', ordered_quantity = Finite 1\<rparr>]),
          Toast_show Error ''Failed to insert items.''])"
    using claimB [THEN conjunct2, THEN conjunct2, THEN conjunct1, THEN mp, OF failed] by simp
  have unchanged: "storage_after ?st
        (snd (placeOrder sample_json ?cart (Some ''pay-1'') ''2026-01-01T09:00:00.000Z'' ?envA ?st))
      = ?st"
    by (rule claimA [THEN conjunct2, THEN conjunct2, THEN conjunct2, THEN mp, OF disjI1,
                     OF unavailable, THEN conjunct2, THEN conjunct2, THEN conjunct2,
                     THEN conjunct2, THEN conjunct2, THEN conjunct2])
  show ?thesis
    by (intro conjI) (rule pay loc dist sel runA runB unchanged)+
qed

section \<open>Scanning a barcode\<close>

lemma remote_calls_append: "remote_calls (xs @ ys) = remote_calls xs @ remote_calls ys"
  by (simp add: remote_calls_def)

lemma handleBarcodeScanned_writes_nothing:
  "filter is_remote_write (remote_calls (snd (handleBarcodeScanned v answer s))) = []"
  by (simp add: handleBarcodeScanned_def remote_calls_def Let_def
        split: attempt.split response.split option.split)

lemma handleBarcodeScanned_currentOrder:
  "currentOrder (fst (handleBarcodeScanned v answer s)) = Some ord
   \<Longrightarrow> currentOrder s = Some ord \<or> answer = Returned (Data (Some ord))"
  by (simp add: handleBarcodeScanned_def Let_def
        split: if_splits attempt.splits response.splits option.splits)

lemma markCompleted_state: "fst (markCompleted answer s) = s"
  by (simp add: markCompleted_def Let_def split: option.split attempt.split response.split)

lemma markCompleted_calls:
  "remote_calls (snd (markCompleted answer s)) =
     (case currentOrder s of None \<Rightarrow> []
      | Some ord \<Rightarrow> [Orders_update_status (scanned_id ord) ''Completed''])"
  by (simp add: markCompleted_def remote_calls_def Let_def
        split: option.split attempt.split response.split)

lemma fetched_orders_Scan:
  "set (fetched_orders (Scan v answer # as)) =
     (case answer of Returned (Data (Some ord)) \<Rightarrow> insert ord (set (fetched_orders as))
      | _ \<Rightarrow> set (fetched_orders as))"
  by (simp split: attempt.split response.split option.split)

lemma fetched_orders_other:
  "fetched_orders (Mark_completed answer # as) = fetched_orders as"
  "fetched_orders (Scan_alert_ok # as) = fetched_orders as"
  "fetched_orders (Modal_close # as) = fetched_orders as"
  by simp_all

lemma scan_run_writes:
  assumes "\<forall>ord. currentOrder s = Some ord \<longrightarrow> ord \<in> F"
    and "c \<in> set (remote_calls (snd (scan_run acts s)))"
    and "is_remote_write c"
  shows "\<exists>ord \<in> F \<union> set (fetched_orders acts). c = Orders_update_status (scanned_id ord) ''Completed''"
  using assms
proof (induction acts arbitrary: s F)
  case Nil
  then show ?case by (simp add: remote_calls_def)
next
  case (Cons a as)
  obtain s1 es1 where step: "scan_step a s = (s1, es1)" by (cases "scan_step a s")
  obtain s2 es2 where rest: "scan_run as s1 = (s2, es2)" by (cases "scan_run as s1")
  have run: "snd (scan_run (a # as) s) = es1 @ es2"
    by (simp add: step rest)
  from Cons.prems(2) run
  consider (first) "c \<in> set (remote_calls es1)" | (later) "c \<in> set (remote_calls es2)"
    by (auto simp: remote_calls_append)
  then show ?case
  proof cases
    case first
    show ?thesis
    proof (cases a)
      case (Scan v answer)
      with step have "es1 = snd (handleBarcodeScanned v answer s)" by simp
      with first Cons.prems(3) handleBarcodeScanned_writes_nothing [of v answer s]
      show ?thesis by (auto simp: filter_empty_conv)
    next
      case (Mark_completed answer)
      with step have "es1 = snd (markCompleted answer s)" by simp
      with first obtain ord where "currentOrder s = Some ord"
        "c = Orders_update_status (scanned_id ord) ''Completed''"
        by (cases "currentOrder s") (auto simp: markCompleted_calls)
      with Cons.prems(1) show ?thesis by auto
    next
      case Scan_alert_ok
      with step first show ?thesis by (auto simp: remote_calls_def)
    next
      case Modal_close
      with step first show ?thesis by (auto simp: remote_calls_def)
    qed
  next
    case later
    define F' where "F' = F \<union> set (fetched_orders [a])"
    have inv: "\<forall>ord. currentOrder s1 = Some ord \<longrightarrow> ord \<in> F'"
    proof (cases a)
      case (Scan v answer)
      with step have s1: "s1 = fst (handleBarcodeScanned v answer s)" by simp
      show ?thesis
      proof (intro allI impI)
        fix ord assume "currentOrder s1 = Some ord"
        with s1 handleBarcodeScanned_currentOrder [of v answer s ord]
        have "currentOrder s = Some ord \<or> answer = Returned (Data (Some ord))" by simp
        with Cons.prems(1) Scan show "ord \<in> F'" by (auto simp: F'_def)
      qed
    next
      case (Mark_completed answer)
      with step have "s1 = s" using markCompleted_state [of answer s] by simp
      with Cons.prems(1) show ?thesis by (simp add: F'_def)
    next
      case Scan_alert_ok
      with step Cons.prems(1) show ?thesis by (auto simp: F'_def)
    next
      case Modal_close
      with step Cons.prems(1) show ?thesis by (auto simp: F'_def)
    qed
    from later rest have "c \<in> set (remote_calls (snd (scan_run as s1)))" by simp
    from Cons.IH [OF inv this Cons.prems(3)]
    obtain ord where ord: "ord \<in> F' \<union> set (fetched_orders as)"
      "c = Orders_update_status (scanned_id ord) ''Completed''" by blast
    have "F' \<union> set (fetched_orders as) \<subseteq> F \<union> set (fetched_orders (a # as))"
      unfolding F'_def
      by (cases a) (auto simp: fetched_orders_Scan split: attempt.splits response.splits option.splits)
    with ord show ?thesis by blast
  qed
qed

text \<open>
  C6: when the query of \<^verbatim>\<open>orders\<close> by barcode answers with an error or with no row,
  handleBarcodeScanned has sent that one query and nothing else, and shows one alert,
  titled Error; whatever the answer, it sends no call that writes. In every run of
  the screen from its initial state, each call that writes is the update of the status
  to \<^verbatim>\<open>Completed\<close> of an order that a scan of that run fetched, and it is markCompleted
  that sends it: one update, of the current order, and none when there is no current
  order.
\<close>

theorem handleBarcodeScanned_no_write_on_failure:
  "(isScanning s \<and> scannedValue \<noteq> []
      \<and> (answer = Returned Failed \<or> answer = Returned (Data None))
      \<longrightarrow> handleBarcodeScanned scannedValue answer s
          = (s\<lparr>isScanning := False\<rparr>,
             [Remote (Orders_select_by_barcode scannedValue),
              Alert_alert ''Error'' ''Barcode not found or fetch failed.'']))
   \<and> filter is_remote_write (remote_calls (snd (handleBarcodeScanned scannedValue answer s))) = []
   \<and> length (remote_calls (snd (handleBarcodeScanned scannedValue answer s))) \<le> 1
   \<and> (\<forall>c \<in> set (remote_calls (snd (scan_run acts scan_initial))).
         is_remote_write c \<longrightarrow>
           (\<exists>ord \<in> set (fetched_orders acts).
              c = Orders_update_status (scanned_id ord) ''Completed''))
   \<and> remote_calls (snd (markCompleted update_answer s))
       = (case currentOrder s of None \<Rightarrow> []
          | Some ord \<Rightarrow> [Orders_update_status (scanned_id ord) ''Completed''])"
proof (intro conjI impI ballI)
  assume "isScanning s \<and> scannedValue \<noteq> []
      \<and> (answer = Returned Failed \<or> answer = Returned (Data None))"
  then show "handleBarcodeScanned scannedValue answer s
          = (s\<lparr>isScanning := False\<rparr>,
             [Remote (Orders_select_by_barcode scannedValue),
              Alert_alert ''Error'' ''Barcode not found or fetch failed.''])"
    by (auto simp: handleBarcodeScanned_def Let_def)
next
  show "filter is_remote_write (remote_calls (snd (handleBarcodeScanned scannedValue answer s))) = []"
    by (rule handleBarcodeScanned_writes_nothing)
next
  show "length (remote_calls (snd (handleBarcodeScanned scannedValue answer s))) \<le> 1"
    by (simp add: handleBarcodeScanned_def remote_calls_def Let_def
        split: attempt.split response.split option.split)
next
  fix c
  assume c: "c \<in> set (remote_calls (snd (scan_run acts scan_initial)))" "is_remote_write c"
  have "\<forall>ord. currentOrder scan_initial = Some ord \<longrightarrow> ord \<in> {}"
    by (simp add: scan_initial_def)
  from scan_run_writes [OF this c]
  show "\<exists>ord \<in> set (fetched_orders acts). c = Orders_update_status (scanned_id ord) ''Completed''"
    by simp
next
  show "remote_calls (snd (markCompleted update_answer s))
       = (case currentOrder s of None \<Rightarrow> []
          | Some ord \<Rightarrow> [Orders_update_status (scanned_id ord) ''Completed''])"
    by (rule markCompleted_calls)
qed

theorem handleBarcodeScanned_no_write_on_failure_witness:
  "isScanning scan_initial
   \<and> handleBarcodeScanned ''no-such-code'' (Returned Failed) scan_initial
      = (scan_initial\<lparr>isScanning := False\<rparr>,
         [Remote (Orders_select_by_barcode ''no-such-code''),
          Alert_alert ''Error'' ''Barcode not found or fetch failed.''])
   \<and> remote_calls (snd (scan_run
        [Scan ''no-such-code'' (Returned Failed), Mark_completed (Returned (Data ())),
         Scan_alert_ok,
         Scan ''b-1'' (Returned (Data (Some \<lparr>scanned_id = ''o1'', orderNumber = ''1001'',
                                             scanned_status = ''Pending''\<rparr>))),
         Mark_completed (Returned (Data ()))] scan_initial))
      = [Orders_select_by_barcode ''no-such-code'', Orders_select_by_barcode ''b-1'',
         Orders_update_status ''o1'' ''Completed'']"
proof -
  have scanning: "isScanning scan_initial" by (simp add: scan_initial_def)
  from handleBarcodeScanned_no_write_on_failure
         [where s = scan_initial and scannedValue = "''no-such-code''"
            and answer = "Returned Failed"] scanning
  have failed: "handleBarcodeScanned ''no-such-code'' (Returned Failed) scan_initial
      = (scan_initial\<lparr>isScanning := False\<rparr>,
         [Remote (Orders_select_by_barcode ''no-such-code''),
          Alert_alert ''Error'' ''Barcode not found or fetch failed.''])"
    by simp
  have run: "remote_calls (snd (scan_run
        [Scan ''no-such-code'' (Returned Failed), Mark_completed (Returned (Data ())),
         Scan_alert_ok,
         Scan ''b-1'' (Returned (Data (Some \<lparr>scanned_id = ''o1'', orderNumber = ''1001'',
                                             scanned_status = ''Pending''\<rparr>))),
         Mark_completed (Returned (Data ()))] scan_initial))
      = [Orders_select_by_barcode ''no-such-code'', Orders_select_by_barcode ''b-1'',
         Orders_update_status ''o1'' ''Completed'']"
    by (simp add: scan_initial_def handleBarcodeScanned_def markCompleted_def
          remote_calls_def Let_def)
  from scanning failed run show ?thesis by simp
qed

section \<open>The keys of the local storage\<close>

lemma keys_written_Nil: "keys_written [] = {}"
  by (simp add: keys_written_def)

lemma keys_written_Cons: "keys_written (e # es) = set (written_key e) \<union> keys_written es"
  by (simp add: keys_written_def)

lemma keys_written_append: "keys_written (xs @ ys) = keys_written xs \<union> keys_written ys"
  by (simp add: keys_written_def)

lemma keys_add_handlers:
  "keys_written (handleAddToCart_ProductDetails J p qty st) \<subseteq> {''cart''}"
  "keys_written (handleAddToCart_ProductCard J None p st) \<subseteq> {''cart''}"
  "keys_written (pressAddToCart_HomeScreen J p st) \<subseteq> {''cart''}"
  "keys_written (handleAddToCart_feature J p st) \<subseteq> {''cart''}"
  "keys_written (handleAddToCart_HomeScreen J p st) \<subseteq> {''cart''}"
  "keys_written (handleAddToCart_CategoryScreen J p st) \<subseteq> {''cart''}"
  "keys_written (reorderItems J items st) \<subseteq> {''cart''}"
  by (simp_all add: handleAddToCart_ProductDetails_def handleAddToCart_ProductCard_def
        pressAddToCart_HomeScreen_def handleAddToCart_feature_def handleAddToCart_HomeScreen_def
        handleAddToCart_CategoryScreen_def reorderItems_def Let_def
        keys_written_Nil keys_written_Cons split: option.split)

lemma keys_confirmSelection:
  "keys_written (confirmSelection sel loc day fetched updateErr iso_str label) \<subseteq> pickup_keys"
  by (simp add: confirmSelection_def pickup_keys_def keys_written_Nil keys_written_Cons
        split: option.split response.split)

lemma keys_location_handlers:
  "keys_written (pick i) = {''selected_store_id''}"
  "keys_written (handleUseCurrentLocation J) = location_keys"
  "keys_written (handleConfirmLocation J sel locations) \<subseteq> location_keys"
  by (auto simp: pick_def handleUseCurrentLocation_def handleConfirmLocation_def
        location_keys_def keys_written_Nil keys_written_Cons split: option.split)

lemma keys_persist: "keys_written (snd (persist J newCart st)) \<subseteq> cart_keys"
  by (simp add: persist_def Let_def cart_keys_def keys_written_Nil keys_written_Cons
        split: option.split)

lemma keys_cart_handlers:
  "keys_written (snd (clearCartIfLocationChanged J cart st)) \<subseteq> cart_keys"
  "keys_written (snd (handleIncrement J i cart st)) \<subseteq> cart_keys"
  "keys_written (snd (handleDecrement J i cart st)) \<subseteq> cart_keys"
  "keys_written (snd (handleDelete J i cart st)) \<subseteq> cart_keys"
  "keys_written (snd (handleClearCart :: 'f cart_item list \<times> effect list)) \<subseteq> cart_keys"
  "keys_written (snd (placeOrder J cart pay pickupTime env st)) \<subseteq> cart_keys"
proof -
  show "keys_written (snd (clearCartIfLocationChanged J cart st)) \<subseteq> cart_keys"
    by (simp add: clearCartIfLocationChanged_def Let_def cart_keys_def keys_written_Nil
          keys_written_Cons split: option.split)
  show "keys_written (snd (handleIncrement J i cart st)) \<subseteq> cart_keys"
    by (simp add: handleIncrement_def keys_persist)
  show "keys_written (snd (handleDecrement J i cart st)) \<subseteq> cart_keys"
    by (simp add: handleDecrement_def keys_persist)
  show "keys_written (snd (handleDelete J i cart st)) \<subseteq> cart_keys"
  proof -
    obtain c es where p: "persist J (filter (\<lambda>it. item_id it \<noteq> i) cart) st = (c, es)"
      by (cases "persist J (filter (\<lambda>it. item_id it \<noteq> i) cart) st")
    with keys_persist [of J "filter (\<lambda>it. item_id it \<noteq> i) cart" st]
    have "keys_written es \<subseteq> cart_keys" by simp
    with p show ?thesis
      by (simp add: handleDelete_def Let_def keys_written_append keys_written_Cons
            keys_written_Nil)
  qed
  show "keys_written (snd (handleClearCart :: 'f cart_item list \<times> effect list)) \<subseteq> cart_keys"
    by (simp add: handleClearCart_def cart_keys_def keys_written_Nil keys_written_Cons)
  show "keys_written (snd (placeOrder J cart pay pickupTime env st)) \<subseteq> cart_keys"
    by (simp add: placeOrder_def Let_def cart_keys_def keys_written_Nil keys_written_Cons
          keys_written_append split: option.split response.split list.split)
qed

lemma keys_auth_session:
  "keys_written (auth_session session_key call session) \<subseteq> {session_key}"
  by (simp add: auth_session_def keys_written_Nil keys_written_Cons split: option.split)

text \<open>
  C5, as the claim states it, fails: picking a store writes the key
  \<^verbatim>\<open>selected_store_id\<close>, and confirming a pickup time writes the keys
  \<^verbatim>\<open>selectedPickupTime\<close> and \<^verbatim>\<open>selectedPickupLabel\<close>; none of them is a key of the
  cart or of the selected location.
\<close>

theorem storage_keys_counterexample:
  "keys_written (perform sample_json ''sb-auth-token'' Map.empty (Pick_store ''store-1''))
     = {''selected_store_id''}
   \<and> ''selected_store_id'' \<notin> cart_keys \<union> location_keys
   \<and> keys_written
        (perform sample_json ''sb-auth-token'' Map.empty
           (Confirm_selection (Some \<lparr>time = ''09:00'', capacity = Some 2\<rparr>) (Some ''loc-1'') 3
              (Data (Some (Some [\<lparr>time = ''09:00'', capacity = Some 2\<rparr>]))) False
              (Some ''2026-01-01T09:00:00.000Z'') ''Today, 9:00 AM - 10:00 AM''))
      = {''selectedPickupTime'', ''selectedPickupLabel''}
   \<and> ''selectedPickupTime'' \<notin> cart_keys \<union> location_keys
   \<and> ''selectedPickupLabel'' \<notin> cart_keys \<union> location_keys
   \<and> \<not> keys_written (perform sample_json ''sb-auth-token'' Map.empty (Pick_store ''store-1''))
         \<subseteq> cart_keys \<union> location_keys"
  by (simp add: pick_def confirmSelection_def keys_written_def cart_keys_def location_keys_def)

text \<open>
  C5, amended: the local storage holds the cart, the selected location, the selected
  store, the selected pickup time and the session of the client library. Picking a store
  writes no key but \<^verbatim>\<open>selected_store_id\<close>, confirmSelection none but
  \<^verbatim>\<open>selectedPickupTime\<close> and \<^verbatim>\<open>selectedPickupLabel\<close>, the two handlers of
  SelectLocation none but \<^verbatim>\<open>selectedLocation\<close> and \<^verbatim>\<open>location_id\<close>, a call of the
  authentication interface none but the session key of the library, and every other
  operation none but \<^verbatim>\<open>cart\<close> and \<^verbatim>\<open>cartLocationId\<close>; so no operation writes a key
  outside these seven and the session key.
\<close>

theorem storage_keys_written:
  "keys_written (perform J session_key st op)
     \<subseteq> (case op of
          Pick_store i \<Rightarrow> store_keys
        | Confirm_selection sel loc day fetched updateErr iso_str label \<Rightarrow> pickup_keys
        | Use_current_location \<Rightarrow> location_keys
        | Confirm_location sel locations \<Rightarrow> location_keys
        | Auth call session \<Rightarrow> {session_key}
        | _ \<Rightarrow> cart_keys)
   \<and> keys_written (perform J session_key st op)
        \<subseteq> cart_keys \<union> location_keys \<union> store_keys \<union> pickup_keys \<union> {session_key}"
proof -
  have first: "keys_written (perform J session_key st op)
     \<subseteq> (case op of
          Pick_store i \<Rightarrow> store_keys
        | Confirm_selection sel loc day fetched updateErr iso_str label \<Rightarrow> pickup_keys
        | Use_current_location \<Rightarrow> location_keys
        | Confirm_location sel locations \<Rightarrow> location_keys
        | Auth call session \<Rightarrow> {session_key}
        | _ \<Rightarrow> cart_keys)"
  proof (cases op)
    case (Add_ProductDetails p qty)
    then show ?thesis using keys_add_handlers(1) [of J p qty st] by (auto simp: cart_keys_def)
  next
    case (Add_HomeScreen_card p)
    then show ?thesis using keys_add_handlers(3) [of J p st] by (auto simp: cart_keys_def)
  next
    case (Add_feature p)
    then show ?thesis using keys_add_handlers(4) [of J p st] by (auto simp: cart_keys_def)
  next
    case (Add_CategoryScreen p)
    then show ?thesis using keys_add_handlers(6) [of J p st] by (auto simp: cart_keys_def)
  next
    case (Reorder_items items)
    then show ?thesis using keys_add_handlers(7) [of J items st] by (auto simp: cart_keys_def)
  next
    case (Confirm_selection sel loc day fetched updateErr iso_str label)
    then show ?thesis by (simp add: keys_confirmSelection)
  next
    case (Pick_store i)
    then show ?thesis by (simp add: keys_location_handlers store_keys_def)
  next
    case Use_current_location
    then show ?thesis by (simp add: keys_location_handlers)
  next
    case (Confirm_location sel locations)
    then show ?thesis by (simp add: keys_location_handlers)
  next
    case (Cart_mounted cart)
    then show ?thesis by (simp add: keys_cart_handlers)
  next
    case (Cart_increment i cart)
    then show ?thesis by (simp add: keys_cart_handlers)
  next
    case (Cart_decrement i cart)
    then show ?thesis by (simp add: keys_cart_handlers)
  next
    case (Cart_delete i cart)
    then show ?thesis by (simp add: keys_cart_handlers)
  next
    case Cart_clear
    then show ?thesis by (simp add: keys_cart_handlers)
  next
    case (Place_order cart pay pickupTime env)
    then show ?thesis by (simp add: keys_cart_handlers)
  next
    case (Auth call session)
    then show ?thesis by (simp add: keys_auth_session)
  qed
  then have "keys_written (perform J session_key st op)
        \<subseteq> cart_keys \<union> location_keys \<union> store_keys \<union> pickup_keys \<union> {session_key}"
    by (cases op) auto
  with first show ?thesis by simp
qed

theorem storage_keys_written_witness:
  "keys_written (perform sample_json ''sb-auth-token''
                   [''selectedLocation'' \<mapsto> ''{id:loc-1,name:Main Street}'']
                   (Cart_increment ''p1''
                      [\<lparr>item_id = ''p1'', item_name = ''Milk'', quantity = Finite 1,
                        item_other = ()\<rparr>]))
     = {''cart'', ''cartLocationId''}
   \<and> keys_written (perform sample_json ''sb-auth-token'' Map.empty Use_current_location)
     = {''selectedLocation'', ''location_id''}
   \<and> keys_written (perform sample_json ''sb-auth-token'' Map.empty
                     (Add_HomeScreen_card milk))
     = {''cart''}
   \<and> keys_written (perform sample_json ''sb-auth-token'' Map.empty
                     (Auth SignInWithPassword (Some ''{access_token:t1}'')))
     = {''sb-auth-token''}
   \<and> keys_written (perform sample_json ''sb-auth-token'' Map.empty (Auth SignOut None))
     = {''sb-auth-token''}"
proof -
  have "keys_written (perform sample_json ''sb-auth-token''
                   [''selectedLocation'' \<mapsto> ''{id:loc-1,name:Main Street}'']
                   (Cart_increment ''p1''
                      [\<lparr>item_id = ''p1'', item_name = ''Milk'', quantity = Finite 1,
                        item_other = ()\<rparr>]))
     = {''cart'', ''cartLocationId''}"
    using storage_keys_written
            [of sample_json "''sb-auth-token''"
                "[''selectedLocation'' \<mapsto> ''{id:loc-1,name:Main Street}'']"
                "Cart_increment ''p1''
                   [\<lparr>item_id = ''p1'', item_name = ''Milk'', quantity = Finite 1,
                     item_other = ()\<rparr>]"]
    by (auto simp: handleIncrement_def persist_def currentLocId_def truthy_def sample_json_def
          keys_written_def Let_def)
  moreover have "keys_written (perform sample_json ''sb-auth-token'' Map.empty Use_current_location)
     = {''selectedLocation'', ''location_id''}"
    by (auto simp: handleUseCurrentLocation_def keys_written_def)
  moreover have "keys_written (perform sample_json ''sb-auth-token'' Map.empty
                     (Add_HomeScreen_card milk))
     = {''cart''}"
    by (simp add: pressAddToCart_HomeScreen_def handleAddToCart_ProductCard_def
          handleAddToCart_HomeScreen_def stored_cart_def truthy_def sample_json_def
          sample_carts_def milk_def spread_product_def add_quantity_def keys_written_def)
  moreover have "keys_written (perform sample_json ''sb-auth-token'' Map.empty
                     (Auth SignInWithPassword (Some ''{access_token:t1}'')))
     = {''sb-auth-token''}"
    "keys_written (perform sample_json ''sb-auth-token'' Map.empty (Auth SignOut None))
     = {''sb-auth-token''}"
    by (simp_all add: auth_session_def keys_written_def)
  ultimately show ?thesis by simp
qed

section \<open>The Cart screen and the selected location\<close>

lemma currentLocId_other_key:
  "k \<noteq> ''selectedLocation'' \<Longrightarrow> currentLocId J (st(k \<mapsto> v)) = currentLocId J st"
  by (simp add: currentLocId_def)

text \<open>
  C10, for the effect on its own (the effect that loads the cart runs beside it and is
  not part of it): let the stored location and the stored cart be readable. When the
  saved cart is not empty and a cart-location id is saved (a non-empty string, as the
  guard tests it) that differs from the id of the currently selected location (also when
  no location is selected), the effect empties the in-memory cart and removes the key
  \<^verbatim>\<open>cart\<close>, and nothing else, from the storage. When the saved cart is empty, or no
  cart-location id is saved, or the ids are equal, the effect does nothing: the
  in-memory cart and the storage are as before.
\<close>

theorem clearCartIfLocationChanged_clears_on_change:
  assumes "currentLocId J st = Some currentLoc"
    and "stored_cart J (st ''cart'') = Some saved"
  shows
    "(saved \<noteq> [] \<and> truthy (st ''cartLocationId'') \<and> st ''cartLocationId'' \<noteq> currentLoc
        \<longrightarrow> fst (clearCartIfLocationChanged J cart st) = []
          \<and> snd (clearCartIfLocationChanged J cart st)
              = [Remove_item ''cart'', Toast_show Info ''Location changed - cart was cleared.'']
          \<and> storage_after st (snd (clearCartIfLocationChanged J cart st)) = st(''cart'' := None))
     \<and> (saved = [] \<or> \<not> truthy (st ''cartLocationId'') \<or> st ''cartLocationId'' = currentLoc
        \<longrightarrow> clearCartIfLocationChanged J cart st = (cart, [])
          \<and> storage_after st (snd (clearCartIfLocationChanged J cart st)) = st)"
  using assms
  by (auto simp: clearCartIfLocationChanged_def Let_def storage_after_def)

theorem clearCartIfLocationChanged_clears_on_change_witness:
  "currentLocId sample_json
      [''selectedLocation'' \<mapsto> ''{id:loc-2,name:Harbour}'', ''cartLocationId'' \<mapsto> ''loc-1'',
       ''cart'' \<mapsto> ''[{id:p1,name:Milk,quantity:2}]'']
     = Some (Some ''loc-2'')
   \<and> clearCartIfLocationChanged sample_json [spread_product milk (Finite 2)]
        [''selectedLocation'' \<mapsto> ''{id:loc-2,name:Harbour}'', ''cartLocationId'' \<mapsto> ''loc-1'',
         ''cart'' \<mapsto> ''[{id:p1,name:Milk,quantity:2}]'']
     = ([], [Remove_item ''cart'', Toast_show Info ''Location changed - cart was cleared.''])
   \<and> clearCartIfLocationChanged sample_json [spread_product milk (Finite 2)]
        [''selectedLocation'' \<mapsto> ''{id:loc-1,name:Main Street}'', ''cartLocationId'' \<mapsto> ''loc-1'',
         ''cart'' \<mapsto> ''[{id:p1,name:Milk,quantity:2}]'']
     = ([spread_product milk (Finite 2)], [])"
proof -
  let ?changed = "[''selectedLocation'' \<mapsto> ''{id:loc-2,name:Harbour}'',
                   ''cartLocationId'' \<mapsto> ''loc-1'',
                   ''cart'' \<mapsto> ''[{id:p1,name:Milk,quantity:2}]'']"
  let ?same = "[''selectedLocation'' \<mapsto> ''{id:loc-1,name:Main Street}'',
                ''cartLocationId'' \<mapsto> ''loc-1'',
                ''cart'' \<mapsto> ''[{id:p1,name:Milk,quantity:2}]'']"
  have loc2: "currentLocId sample_json ?changed = Some (Some ''loc-2'')"
    by (simp add: currentLocId_def truthy_def sample_json_def)
  have loc1: "currentLocId sample_json ?same = Some (Some ''loc-1'')"
    by (simp add: currentLocId_def truthy_def sample_json_def)
  have saved2: "stored_cart sample_json (?changed ''cart'') = Some [spread_product milk (Finite 2)]"
    by (simp add: stored_cart_def truthy_def sample_json_def sample_carts_def
          spread_product_def milk_def)
  have saved1: "stored_cart sample_json (?same ''cart'') = Some [spread_product milk (Finite 2)]"
    by (simp add: stored_cart_def truthy_def sample_json_def sample_carts_def
          spread_product_def milk_def)
  from clearCartIfLocationChanged_clears_on_change
         [where J = sample_json and st = ?changed and currentLoc = "Some ''loc-2''"
            and saved = "[spread_product milk (Finite 2)]" and cart = "[spread_product milk (Finite 2)]"]
       loc2 saved2
  have cleared: "clearCartIfLocationChanged sample_json [spread_product milk (Finite 2)] ?changed
     = ([], [Remove_item ''cart'', Toast_show Info ''Location changed - cart was cleared.''])"
    by (simp add: truthy_def prod_eq_iff)
  from clearCartIfLocationChanged_clears_on_change
         [where J = sample_json and st = ?same and currentLoc = "Some ''loc-1''"
            and saved = "[spread_product milk (Finite 2)]" and cart = "[spread_product milk (Finite 2)]"]
       loc1 saved1
  have kept: "clearCartIfLocationChanged sample_json [spread_product milk (Finite 2)] ?same
     = ([spread_product milk (Finite 2)], [])"
    by (simp add: truthy_def)
  from loc2 cleared kept show ?thesis by simp
qed

section \<open>What persist stores\<close>

text \<open>
  Let the stored location be readable. After persist the in-memory cart is \<open>newCart\<close>,
  the value under the key \<^verbatim>\<open>cart\<close> is the text that \<^verbatim>\<open>JSON.stringify\<close> gives for
  \<open>newCart\<close>, the key \<^verbatim>\<open>cartLocationId\<close> holds the id of the selected location when
  \<open>newCart\<close> is not empty and a location with a (non-empty) id is selected and is absent
  otherwise, and every other key is as before.
\<close>

lemma persist_stores:
  assumes loc: "currentLocId J st = Some currentLoc"
  shows
    "fst (persist J newCart st) = newCart
     \<and> storage_after st (snd (persist J newCart st)) ''cart''
         = Some (JSON_stringify_cart J newCart)
     \<and> storage_after st (snd (persist J newCart st)) ''cartLocationId''
         = (if newCart \<noteq> [] \<and> truthy currentLoc then currentLoc else None)
     \<and> (\<forall>k. k \<noteq> ''cart'' \<and> k \<noteq> ''cartLocationId''
            \<longrightarrow> storage_after st (snd (persist J newCart st)) k = st k)"
proof -
  have loc': "currentLocId J (apply_effect st (Set_item ''cart'' (JSON_stringify_cart J newCart)))
              = Some currentLoc"
    using loc by (simp add: currentLocId_other_key)
  have run: "persist J newCart st =
     (newCart,
      [Set_item ''cart'' (JSON_stringify_cart J newCart),
       if newCart \<noteq> [] \<and> truthy currentLoc then Set_item ''cartLocationId'' (the currentLoc)
       else Remove_item ''cartLocationId''])"
    unfolding persist_def Let_def loc' by simp
  have some: "truthy currentLoc \<Longrightarrow> Some (the currentLoc) = currentLoc"
    by (cases currentLoc) (simp_all add: truthy_def)
  show ?thesis
    unfolding run using some
    by (auto simp: storage_after_def)
qed

end
